theory Spec2Isabelle
  imports Main "HOL-Library.Word"
begin

unbundle bit_operations_syntax

section \<open>The routing layer of FreeRTOS+TCP (FreeRTOS\_Routing.c)\<close>

text \<open>
  The file keeps two global singly linked lists: the network interfaces and the
  end-points. Both are intrusive lists in storage owned by the caller, so the model has
  an explicit store: a pointer is a natural number, \<open>NULL\<close> is 0, and the store maps
  every pointer to the object it holds. A function of the source that follows
  \<open>pxNext\<close> pointers is a loop over the store; on a cyclic store such a loop does not
  return, and its model returns \<open>None\<close>.

  Modelled are the registration functions, \<open>FreeRTOS_FillEndPoint\<close>, and the lookups
  of both builds. \<open>FreeRTOS_FillEndPoint_IPv6\<close> and the two socket accessors are left
  out; no property below is about them.
\<close>

subsection \<open>Data\<close>

type_synonym uint8_t = "8 word"
type_synonym uint16_t = "16 word"
type_synonym uint32_t = "32 word"
type_synonym ep_ptr = nat
type_synonym if_ptr = nat
type_synonym IPv6_Address = "uint8_t list"
type_synonym MACAddress = "uint8_t list"

abbreviation NULL :: nat where
  "NULL \<equiv> 0"

text \<open>
  The structs are declared in FreeRTOS\_Routing.h. The records hold the fields that
  FreeRTOS\_Routing.c reads or writes. The \<open>pxNext\<close> field of an interface is called
  \<open>pxNextInterface\<close> here, since a record field name is global.
\<close>

record IPV4Parameters =
  ulIPAddress :: uint32_t
  ulNetMask :: uint32_t
  ulGatewayAddress :: uint32_t
  ulDNSServerAddresses :: "uint32_t list"
  ulBroadcastAddress :: uint32_t

record IPV6Parameters =
  xIPAddress :: IPv6_Address
  uxPrefixLength :: nat
  xGatewayAddress :: IPv6_Address
  xDNSServerAddresses :: "IPv6_Address list"
  xPrefix :: IPv6_Address

record NetworkEndPoint =
  ipv4_settings :: IPV4Parameters
  ipv4_defaults :: IPV4Parameters
  ipv6_settings :: IPV6Parameters
  ipv6_defaults :: IPV6Parameters
  xMACAddress :: MACAddress
  bIPv6 :: bool
  pxNetworkInterface :: if_ptr
  pxNext :: ep_ptr

record NetworkInterface =
  pxEndPoint :: ep_ptr
  pxNextInterface :: if_ptr

text \<open>
  The two globals \<open>pxNetworkEndPoints\<close> and \<open>pxNetworkInterfaces\<close>, and the storage of
  the end-point and interface objects.
\<close>

record state =
  pxNetworkEndPoints :: ep_ptr
  pxNetworkInterfaces :: if_ptr
  endpoints :: "ep_ptr \<Rightarrow> NetworkEndPoint"
  interfaces :: "if_ptr \<Rightarrow> NetworkInterface"

text \<open>
  The fields of a received frame that \<open>FreeRTOS_MatchingEndpoint\<close> reads through its
  casts of the Ethernet buffer: the frame type, the ARP target protocol address, the
  IPv4 source and destination address, and the IPv6 destination address.
\<close>

record ProtocolPacket =
  usFrameType :: uint16_t
  ulTargetProtocolAddress :: uint32_t
  ulSourceIPAddress :: uint32_t
  ulDestinationIPAddress :: uint32_t
  xDestinationAddress :: IPv6_Address

datatype error = NullDereference | AssertFailed

subsection \<open>Build configuration and external collaborators\<close>

text \<open>
  The preprocessor switches of the source, and the macros, constants and functions that
  the source uses and that other files define. They are parameters of the model:
  \<open>FreeRTOS_inet_addr_quick\<close> (FreeRTOS\_Sockets.h), \<open>xIsIPv4Multicast\<close> (declared in
  FreeRTOS\_IP.h, defined elsewhere), \<open>xCompareIPv6_Address\<close>, the frame type constants,
  \<open>ipLLMNR_IP_ADDR_IPv6\<close> and \<open>in6addr_any\<close>.
\<close>

record config =
  ipconfigCOMPATIBLE_WITH_SINGLE :: bool
  ipconfigUSE_IPv6 :: bool
  ipconfigUSE_LLMNR :: bool
  ipconfigBYTE_ORDER_LITTLE_ENDIAN :: bool
  ipconfigENDPOINT_DNS_ADDRESS_COUNT :: nat
  FreeRTOS_inet_addr_quick :: "uint8_t \<Rightarrow> uint8_t \<Rightarrow> uint8_t \<Rightarrow> uint8_t \<Rightarrow> uint32_t"
  xIsIPv4Multicast :: "uint32_t \<Rightarrow> bool"
  xCompareIPv6_Address :: "IPv6_Address \<Rightarrow> IPv6_Address \<Rightarrow> nat \<Rightarrow> int"
  ipIPv6_FRAME_TYPE :: uint16_t
  ipARP_FRAME_TYPE :: uint16_t
  ipIPv4_FRAME_TYPE :: uint16_t
  ipLLMNR_IP_ADDR_IPv6 :: IPv6_Address
  in6addr_any :: IPv6_Address

definition ipMAC_ADDRESS_LENGTH_BYTES :: nat where
  "ipMAC_ADDRESS_LENGTH_BYTES = 6"

definition ipSIZE_OF_IPv6_ADDRESS :: nat where
  "ipSIZE_OF_IPv6_ADDRESS = 16"

definition ipTYPE_IPv4 :: int where
  "ipTYPE_IPv4 = 0x40"

definition ipTYPE_IPv6 :: int where
  "ipTYPE_IPv6 = 0x60"

text \<open>The macro \<open>FreeRTOS_htonl\<close> of FreeRTOS\_IP.h, in both byte orders.\<close>

definition FreeRTOS_htonl :: "config \<Rightarrow> uint32_t \<Rightarrow> uint32_t" where
  "FreeRTOS_htonl cfg ulIn =
     (if ipconfigBYTE_ORDER_LITTLE_ENDIAN cfg
      then push_bit 24 ulIn OR push_bit 8 (ulIn AND 0x0000ff00)
           OR drop_bit 8 (ulIn AND 0x00ff0000) OR drop_bit 24 ulIn
      else ulIn)"

definition FreeRTOS_ntohl :: "config \<Rightarrow> uint32_t \<Rightarrow> uint32_t" where
  "FreeRTOS_ntohl cfg x = FreeRTOS_htonl cfg x"

text \<open>\<open>memcmp( a, b, n ) == 0\<close> on byte arrays.\<close>

definition memcmp_eq :: "uint8_t list \<Rightarrow> uint8_t list \<Rightarrow> nat \<Rightarrow> bool" where
  "memcmp_eq a b n = (take n a = take n b)"

text \<open>What \<open>memset( pxEndPoint, 0, sizeof( *pxEndPoint ) )\<close> leaves in the object.\<close>

definition zero_IPV4Parameters :: "config \<Rightarrow> IPV4Parameters" where
  "zero_IPV4Parameters cfg =
     \<lparr> ulIPAddress = 0, ulNetMask = 0, ulGatewayAddress = 0,
       ulDNSServerAddresses = replicate (ipconfigENDPOINT_DNS_ADDRESS_COUNT cfg) 0,
       ulBroadcastAddress = 0 \<rparr>"

definition zero_IPV6Parameters :: "config \<Rightarrow> IPV6Parameters" where
  "zero_IPV6Parameters cfg =
     \<lparr> xIPAddress = replicate ipSIZE_OF_IPv6_ADDRESS 0, uxPrefixLength = 0,
       xGatewayAddress = replicate ipSIZE_OF_IPv6_ADDRESS 0,
       xDNSServerAddresses = replicate (ipconfigENDPOINT_DNS_ADDRESS_COUNT cfg)
                               (replicate ipSIZE_OF_IPv6_ADDRESS 0),
       xPrefix = replicate ipSIZE_OF_IPv6_ADDRESS 0 \<rparr>"

definition zero_NetworkEndPoint :: "config \<Rightarrow> NetworkEndPoint" where
  "zero_NetworkEndPoint cfg =
     \<lparr> ipv4_settings = zero_IPV4Parameters cfg, ipv4_defaults = zero_IPV4Parameters cfg,
       ipv6_settings = zero_IPV6Parameters cfg, ipv6_defaults = zero_IPV6Parameters cfg,
       xMACAddress = replicate ipMAC_ADDRESS_LENGTH_BYTES 0, bIPv6 = False,
       pxNetworkInterface = NULL, pxNext = NULL \<rparr>"

subsection \<open>Registration, general build (\<open>ipconfigCOMPATIBLE_WITH_SINGLE == 0\<close>)\<close>

text \<open>
  The \<open>for( ; ; )\<close> loop of \<open>FreeRTOS_AddNetworkInterface\<close>: it stops at the interface
  itself, or links the interface behind the last one. \<open>pxIterator\<close> is never \<open>NULL\<close>
  inside the loop.
\<close>

partial_function (option) AddNetworkInterface_loop ::
  "(if_ptr \<Rightarrow> NetworkInterface) \<Rightarrow> if_ptr \<Rightarrow> if_ptr \<Rightarrow> (if_ptr \<Rightarrow> NetworkInterface) option"
where
  "AddNetworkInterface_loop ifs pxInterface pxIterator =
     (if pxIterator = pxInterface then Some ifs
      else if pxNextInterface (ifs pxIterator) = NULL
      then Some (ifs (pxIterator := (ifs pxIterator) \<lparr> pxNextInterface := pxInterface \<rparr>))
      else AddNetworkInterface_loop ifs pxInterface (pxNextInterface (ifs pxIterator)))"

declare AddNetworkInterface_loop.simps [code]

text \<open>
  \<open>FreeRTOS_AddNetworkInterface\<close>. The two fields of the interface are cleared before
  the list is looked at. The function returns its argument; the model returns it with
  the new state. Writing through a \<open>NULL\<close> argument is the error \<open>NullDereference\<close>.
\<close>

definition FreeRTOS_AddNetworkInterface ::
  "state \<Rightarrow> if_ptr \<Rightarrow> (error + if_ptr \<times> state) option"
where
  "FreeRTOS_AddNetworkInterface s pxInterface =
     (if pxInterface = NULL then Some (Inl NullDereference)
      else
        let ifs1 = (interfaces s) (pxInterface :=
                     (interfaces s pxInterface) \<lparr> pxNextInterface := NULL \<rparr>);
            ifs2 = ifs1 (pxInterface := (ifs1 pxInterface) \<lparr> pxEndPoint := NULL \<rparr>)
        in if pxNetworkInterfaces s = NULL
           then Some (Inr (pxInterface,
                  s \<lparr> pxNetworkInterfaces := pxInterface, interfaces := ifs2 \<rparr>))
           else (case AddNetworkInterface_loop ifs2 pxInterface (pxNetworkInterfaces s) of
                   None \<Rightarrow> None
                 | Some ifs3 \<Rightarrow> Some (Inr (pxInterface, s \<lparr> interfaces := ifs3 \<rparr>))))"

definition FreeRTOS_FirstNetworkInterface :: "state \<Rightarrow> if_ptr" where
  "FreeRTOS_FirstNetworkInterface s = pxNetworkInterfaces s"

definition FreeRTOS_NextNetworkInterface :: "state \<Rightarrow> if_ptr \<Rightarrow> if_ptr" where
  "FreeRTOS_NextNetworkInterface s pxInterface =
     (if pxInterface \<noteq> NULL then pxNextInterface (interfaces s pxInterface) else NULL)"

text \<open>The \<open>for( ; ; )\<close> loop of \<open>FreeRTOS_AddEndPoint\<close>.\<close>

partial_function (option) AddEndPoint_loop ::
  "(ep_ptr \<Rightarrow> NetworkEndPoint) \<Rightarrow> ep_ptr \<Rightarrow> ep_ptr \<Rightarrow> (ep_ptr \<Rightarrow> NetworkEndPoint) option"
where
  "AddEndPoint_loop eps pxEP pxIterator =
     (if pxIterator = pxEP then Some eps
      else if pxNext (eps pxIterator) = NULL
      then Some (eps (pxIterator := (eps pxIterator) \<lparr> pxNext := pxEP \<rparr>))
      else AddEndPoint_loop eps pxEP (pxNext (eps pxIterator)))"

declare AddEndPoint_loop.simps [code]

text \<open>
  \<open>FreeRTOS_AddEndPoint\<close> of the general build. The diagnostic \<open>FreeRTOS_printf\<close> is
  left out.
\<close>

definition FreeRTOS_AddEndPoint ::
  "state \<Rightarrow> if_ptr \<Rightarrow> ep_ptr \<Rightarrow> (error + ep_ptr \<times> state) option"
where
  "FreeRTOS_AddEndPoint s pxInterface pxEP =
     (if pxEP = NULL \<or> pxInterface = NULL then Some (Inl NullDereference)
      else
        let eps1 = (endpoints s) (pxEP := (endpoints s pxEP) \<lparr> pxNext := NULL \<rparr>);
            eps2 = eps1 (pxEP := (eps1 pxEP) \<lparr> pxNetworkInterface := pxInterface \<rparr>);
            ifs1 = (if pxEndPoint (interfaces s pxInterface) = NULL
                    then (interfaces s) (pxInterface :=
                           (interfaces s pxInterface) \<lparr> pxEndPoint := pxEP \<rparr>)
                    else interfaces s)
        in if pxNetworkEndPoints s = NULL
           then Some (Inr (pxEP,
                  s \<lparr> pxNetworkEndPoints := pxEP, endpoints := eps2, interfaces := ifs1 \<rparr>))
           else (case AddEndPoint_loop eps2 pxEP (pxNetworkEndPoints s) of
                   None \<Rightarrow> None
                 | Some eps3 \<Rightarrow>
                     Some (Inr (pxEP, s \<lparr> endpoints := eps3, interfaces := ifs1 \<rparr>))))"

subsection \<open>Registration, compatibility build (\<open>ipconfigCOMPATIBLE_WITH_SINGLE != 0\<close>)\<close>

text \<open>
  Both builds define functions of the same name. The functions of the compatibility
  build carry the suffix \<open>_single\<close>. A failing \<open>configASSERT\<close> is the error
  \<open>AssertFailed\<close>.
\<close>

definition FreeRTOS_AddNetworkInterface_single ::
  "state \<Rightarrow> if_ptr \<Rightarrow> error + if_ptr \<times> state"
where
  "FreeRTOS_AddNetworkInterface_single s pxInterface =
     (if pxNetworkInterfaces s \<noteq> NULL then Inl AssertFailed
      else Inr (pxInterface, s \<lparr> pxNetworkInterfaces := pxInterface \<rparr>))"

definition FreeRTOS_AddEndPoint_single ::
  "state \<Rightarrow> if_ptr \<Rightarrow> ep_ptr \<Rightarrow> error + ep_ptr \<times> state"
where
  "FreeRTOS_AddEndPoint_single s pxInterface pxEP =
     (if pxNetworkEndPoints s \<noteq> NULL then Inl AssertFailed
      else if pxEP = NULL \<or> pxInterface = NULL then Inl NullDereference
      else
        let eps1 = (endpoints s) (pxEP := (endpoints s pxEP) \<lparr> pxNext := NULL \<rparr>);
            eps2 = eps1 (pxEP := (eps1 pxEP) \<lparr> pxNetworkInterface := pxInterface \<rparr>);
            ifs1 = (interfaces s) (pxInterface :=
                     (interfaces s pxInterface) \<lparr> pxEndPoint := pxEP \<rparr>)
        in Inr (pxEP,
             s \<lparr> pxNetworkEndPoints := pxEP, endpoints := eps2, interfaces := ifs1 \<rparr>))"

subsection \<open>Configuring an IPv4 end-point\<close>

text \<open>
  \<open>FreeRTOS_FillEndPoint\<close> is compiled in both builds and calls the
  \<open>FreeRTOS_AddEndPoint\<close> of the build. The four address arguments are arrays of
  \<open>ipIP_ADDRESS_LENGTH_BYTES\<close> = 4 bytes, modelled as 4-tuples. The array
  \<open>ulDNSServerAddresses\<close> has \<open>ipconfigENDPOINT_DNS_ADDRESS_COUNT\<close> entries, at least
  one in every build, and the source writes entry 0. \<open>FillEndPoint_object\<close> is the
  object as the function leaves it before it calls \<open>FreeRTOS_AddEndPoint\<close>.
\<close>

type_synonym ip4_bytes = "uint8_t \<times> uint8_t \<times> uint8_t \<times> uint8_t"

definition inet_addr_quick4 :: "config \<Rightarrow> ip4_bytes \<Rightarrow> uint32_t" where
  "inet_addr_quick4 cfg b =
     (case b of (b0, b1, b2, b3) \<Rightarrow> FreeRTOS_inet_addr_quick cfg b0 b1 b2 b3)"

definition FillEndPoint_object ::
  "config \<Rightarrow> ip4_bytes \<Rightarrow> ip4_bytes \<Rightarrow> ip4_bytes \<Rightarrow> ip4_bytes \<Rightarrow> MACAddress \<Rightarrow> NetworkEndPoint"
where
  "FillEndPoint_object cfg ucIPAddress ucNetMask ucGatewayAddress ucDNSServerAddress ucMACAddress =
     (let e0 = zero_NetworkEndPoint cfg;
          ulIP = inet_addr_quick4 cfg ucIPAddress;
          e1 = e0 \<lparr> ipv4_settings := (ipv4_settings e0)
                 \<lparr> ulNetMask := inet_addr_quick4 cfg ucNetMask \<rparr> \<rparr>;
          e2 = e1 \<lparr> ipv4_settings := (ipv4_settings e1)
                 \<lparr> ulGatewayAddress := inet_addr_quick4 cfg ucGatewayAddress \<rparr> \<rparr>;
          e3 = e2 \<lparr> ipv4_settings := (ipv4_settings e2)
                 \<lparr> ulDNSServerAddresses := (ulDNSServerAddresses (ipv4_settings e2))
                      [0 := inet_addr_quick4 cfg ucDNSServerAddress] \<rparr> \<rparr>;
          e4 = e3 \<lparr> ipv4_settings := (ipv4_settings e3)
                 \<lparr> ulBroadcastAddress := ulIP OR NOT (ulNetMask (ipv4_settings e3)) \<rparr> \<rparr>;
          e5 = e4 \<lparr> ipv4_defaults := ipv4_settings e4 \<rparr>;
          e6 = e5 \<lparr> ipv4_defaults := (ipv4_defaults e5) \<lparr> ulIPAddress := ulIP \<rparr> \<rparr>
      in e6 \<lparr> xMACAddress := take ipMAC_ADDRESS_LENGTH_BYTES ucMACAddress \<rparr>)"

definition FreeRTOS_FillEndPoint ::
  "config \<Rightarrow> state \<Rightarrow> if_ptr \<Rightarrow> ep_ptr \<Rightarrow> ip4_bytes \<Rightarrow> ip4_bytes \<Rightarrow> ip4_bytes \<Rightarrow> ip4_bytes
     \<Rightarrow> MACAddress \<Rightarrow> (error + state) option"
where
  "FreeRTOS_FillEndPoint cfg s pxInterface pxEP ucIPAddress ucNetMask ucGatewayAddress
       ucDNSServerAddress ucMACAddress =
     (if pxEP = NULL then Some (Inl NullDereference)
      else
        let s1 = s \<lparr> endpoints := (endpoints s) (pxEP :=
                   FillEndPoint_object cfg ucIPAddress ucNetMask ucGatewayAddress
                     ucDNSServerAddress ucMACAddress) \<rparr>
        in if ipconfigCOMPATIBLE_WITH_SINGLE cfg
           then (case FreeRTOS_AddEndPoint_single s1 pxInterface pxEP of
                   Inl e \<Rightarrow> Some (Inl e)
                 | Inr (r, s2) \<Rightarrow> Some (Inr s2))
           else (case FreeRTOS_AddEndPoint s1 pxInterface pxEP of
                   None \<Rightarrow> None
                 | Some (Inl e) \<Rightarrow> Some (Inl e)
                 | Some (Inr (r, s2)) \<Rightarrow> Some (Inr s2)))"

subsection \<open>Lookups, general build\<close>

text \<open>
  Every lookup of the general build is the same loop over the global list,
  \<^verbatim>\<open>while( pxEndPoint != NULL ) { if( test ) { break; } pxEndPoint = pxEndPoint->pxNext; }\<close>
  followed by \<open>return pxEndPoint\<close>. \<open>endpoint_scan\<close> is that loop, with the test of the
  function as its first argument; each function below instantiates it with the condition
  written in its source. The routing statistics (\<open>ipconfigHAS_ROUTING_STATISTICS\<close>) and
  the diagnostic prints have no effect on a result and are left out; the argument
  \<open>ulWhere\<close>, which only feeds them, is kept in the signatures.
\<close>

partial_function (option) endpoint_scan ::
  "(NetworkEndPoint \<Rightarrow> bool) \<Rightarrow> (ep_ptr \<Rightarrow> NetworkEndPoint) \<Rightarrow> ep_ptr \<Rightarrow> ep_ptr option"
where
  "endpoint_scan test eps pxEP =
     (if pxEP \<noteq> NULL
      then (if test (eps pxEP) then Some pxEP
            else endpoint_scan test eps (pxNext (eps pxEP)))
      else Some pxEP)"

declare endpoint_scan.simps [code]

definition FreeRTOS_FirstEndPoint :: "state \<Rightarrow> if_ptr \<Rightarrow> ep_ptr option" where
  "FreeRTOS_FirstEndPoint s pxInterface =
     endpoint_scan (\<lambda>e. pxInterface = NULL \<or> pxNetworkInterface e = pxInterface)
       (endpoints s) (pxNetworkEndPoints s)"

definition FreeRTOS_NextEndPoint :: "state \<Rightarrow> if_ptr \<Rightarrow> ep_ptr \<Rightarrow> ep_ptr option" where
  "FreeRTOS_NextEndPoint s pxInterface pxEP =
     (if pxEP \<noteq> NULL
      then endpoint_scan (\<lambda>e. pxInterface = NULL \<or> pxNetworkInterface e = pxInterface)
             (endpoints s) (pxNext (endpoints s pxEP))
      else Some pxEP)"

text \<open>
  The macro \<open>ENDPOINT_IS_IPv4\<close> tests that the bit \<open>bIPv6\<close> is clear. Without
  \<open>ipconfigUSE_IPv6\<close> the test is not compiled.
\<close>

definition FreeRTOS_FindEndPointOnIP_IPv4 ::
  "config \<Rightarrow> state \<Rightarrow> uint32_t \<Rightarrow> uint32_t \<Rightarrow> ep_ptr option"
where
  "FreeRTOS_FindEndPointOnIP_IPv4 cfg s ulIP ulWhere =
     endpoint_scan
       (\<lambda>e. (if ipconfigUSE_IPv6 cfg then \<not> bIPv6 e else True) \<and>
             (ulIP = 0 \<or> ulIPAddress (ipv4_settings e) = ulIP))
       (endpoints s) (pxNetworkEndPoints s)"

definition FreeRTOS_FindEndPointOnIP_IPv6 ::
  "config \<Rightarrow> state \<Rightarrow> IPv6_Address \<Rightarrow> ep_ptr option"
where
  "FreeRTOS_FindEndPointOnIP_IPv6 cfg s pxIPAddress =
     endpoint_scan
       (\<lambda>e. bIPv6 e \<and>
             xCompareIPv6_Address cfg (xIPAddress (ipv6_settings e)) pxIPAddress
               (uxPrefixLength (ipv6_settings e)) = 0)
       (endpoints s) (pxNetworkEndPoints s)"

definition FreeRTOS_FindEndPointOnMAC ::
  "state \<Rightarrow> MACAddress \<Rightarrow> if_ptr \<Rightarrow> ep_ptr option"
where
  "FreeRTOS_FindEndPointOnMAC s pxMACAddress pxInterface =
     endpoint_scan
       (\<lambda>e. (pxInterface = NULL \<or> pxInterface = pxNetworkInterface e) \<and>
             memcmp_eq (xMACAddress e) pxMACAddress ipMAC_ADDRESS_LENGTH_BYTES)
       (endpoints s) (pxNetworkEndPoints s)"

definition FreeRTOS_InterfaceEndPointOnNetMask ::
  "config \<Rightarrow> state \<Rightarrow> if_ptr \<Rightarrow> uint32_t \<Rightarrow> uint32_t \<Rightarrow> ep_ptr option"
where
  "FreeRTOS_InterfaceEndPointOnNetMask cfg s pxInterface ulIP ulWhere =
     endpoint_scan
       (\<lambda>e. (pxInterface = NULL \<or> pxNetworkInterface e = pxInterface) \<and>
             (if ipconfigUSE_IPv6 cfg then \<not> bIPv6 e else True) \<and>
             (ulIP AND ulNetMask (ipv4_settings e)) =
               (ulIPAddress (ipv4_settings e) AND ulNetMask (ipv4_settings e)))
       (endpoints s) (pxNetworkEndPoints s)"

definition FreeRTOS_FindEndPointOnNetMask ::
  "config \<Rightarrow> state \<Rightarrow> uint32_t \<Rightarrow> uint32_t \<Rightarrow> ep_ptr option"
where
  "FreeRTOS_FindEndPointOnNetMask cfg s ulIP ulWhere =
     FreeRTOS_InterfaceEndPointOnNetMask cfg s NULL ulIP ulWhere"

text \<open>The next three functions exist only with \<open>ipconfigUSE_IPv6\<close>.\<close>

definition prvFindFirstAddress_IPv6 :: "state \<Rightarrow> ep_ptr option" where
  "prvFindFirstAddress_IPv6 s =
     endpoint_scan (\<lambda>e. bIPv6 e) (endpoints s) (pxNetworkEndPoints s)"

definition FreeRTOS_FindEndPointOnNetMask_IPv6 :: "state \<Rightarrow> IPv6_Address \<Rightarrow> ep_ptr option" where
  "FreeRTOS_FindEndPointOnNetMask_IPv6 s pxIPv6Address = prvFindFirstAddress_IPv6 s"

definition FreeRTOS_FirstEndPoint_IPv6 :: "state \<Rightarrow> if_ptr \<Rightarrow> ep_ptr option" where
  "FreeRTOS_FirstEndPoint_IPv6 s pxInterface =
     endpoint_scan
       (\<lambda>e. (pxInterface = NULL \<or> pxNetworkInterface e = pxInterface) \<and> bIPv6 e)
       (endpoints s) (pxNetworkEndPoints s)"

definition FreeRTOS_FindGateWay :: "config \<Rightarrow> state \<Rightarrow> int \<Rightarrow> ep_ptr option" where
  "FreeRTOS_FindGateWay cfg s xIPType =
     endpoint_scan
       (\<lambda>e. if \<not> ipconfigUSE_IPv6 cfg
             then ulGatewayAddress (ipv4_settings e) \<noteq> 0
             else if xIPType = ipTYPE_IPv6 \<and> bIPv6 e
             then \<not> memcmp_eq (in6addr_any cfg) (xGatewayAddress (ipv6_settings e))
                      ipSIZE_OF_IPv6_ADDRESS
             else if xIPType = ipTYPE_IPv4 \<and> \<not> bIPv6 e
             then ulGatewayAddress (ipv4_settings e) \<noteq> 0
             else False)
       (endpoints s) (pxNetworkEndPoints s)"

subsection \<open>Matching a received frame, general build\<close>

text \<open>
  The locals \<open>xIPBroadcast\<close> and \<open>ulMatchAddress\<close> of the IPv4 case, and the
  \<open>if\<close>/\<open>else if\<close> chain that sets \<open>xDone\<close> for one end-point.
\<close>

definition xIPBroadcast_of :: "config \<Rightarrow> uint32_t \<Rightarrow> bool" where
  "xIPBroadcast_of cfg ulIPTargetAddress =
     (if (FreeRTOS_ntohl cfg ulIPTargetAddress AND 0xff) = 0xff then True else False)"

definition ulMatchAddress_of :: "uint32_t \<Rightarrow> uint32_t \<Rightarrow> uint32_t" where
  "ulMatchAddress_of ulIPSourceAddress ulIPTargetAddress =
     (if ulIPTargetAddress = NOT 0 then ulIPSourceAddress else ulIPTargetAddress)"

definition xDone_of ::
  "config \<Rightarrow> bool \<Rightarrow> uint32_t \<Rightarrow> uint32_t \<Rightarrow> NetworkEndPoint \<Rightarrow> bool"
where
  "xDone_of cfg xIPBroadcast ulMatchAddress ulIPTargetAddress e =
     (if ulIPAddress (ipv4_settings e) = ulIPTargetAddress then True
      else if xIPBroadcast \<and>
              ((ulIPAddress (ipv4_settings e) XOR ulMatchAddress)
                 AND ulNetMask (ipv4_settings e)) = 0
      then True
      else if xIsIPv4Multicast cfg ulIPTargetAddress then True
      else False)"

text \<open>
  The \<open>for\<close> loop of the IPv4 case, from a current \<open>pxEndPoint\<close>: an IPv6 end-point is
  skipped (\<open>continue\<close>), an end-point with \<open>xDone\<close> ends the loop, and the step is
  \<open>FreeRTOS_NextEndPoint\<close>.
\<close>

partial_function (option) MatchingEndpoint_IPv4_loop ::
  "config \<Rightarrow> state \<Rightarrow> if_ptr \<Rightarrow> bool \<Rightarrow> uint32_t \<Rightarrow> uint32_t \<Rightarrow> ep_ptr \<Rightarrow> ep_ptr option"
where
  "MatchingEndpoint_IPv4_loop cfg s pxIf xIPBroadcast ulMatchAddress ulIPTargetAddress pxEP =
     (if pxEP \<noteq> NULL
      then (if ipconfigUSE_IPv6 cfg \<and> bIPv6 (endpoints s pxEP)
            then (case FreeRTOS_NextEndPoint s pxIf pxEP of
                    None \<Rightarrow> None
                  | Some n \<Rightarrow> MatchingEndpoint_IPv4_loop cfg s pxIf xIPBroadcast
                                ulMatchAddress ulIPTargetAddress n)
            else if xDone_of cfg xIPBroadcast ulMatchAddress ulIPTargetAddress
                      (endpoints s pxEP)
            then Some pxEP
            else (case FreeRTOS_NextEndPoint s pxIf pxEP of
                    None \<Rightarrow> None
                  | Some n \<Rightarrow> MatchingEndpoint_IPv4_loop cfg s pxIf xIPBroadcast
                                ulMatchAddress ulIPTargetAddress n))
      else Some pxEP)"

declare MatchingEndpoint_IPv4_loop.simps [code]

text \<open>The block of \<open>case ipIPv4_FRAME_TYPE\<close>.\<close>

definition MatchingEndpoint_IPv4 ::
  "config \<Rightarrow> state \<Rightarrow> if_ptr \<Rightarrow> ProtocolPacket \<Rightarrow> ep_ptr option"
where
  "MatchingEndpoint_IPv4 cfg s pxIf pxPacket =
     (let ulIPSourceAddress = ulSourceIPAddress pxPacket;
          ulIPTargetAddress = ulDestinationIPAddress pxPacket;
          xIPBroadcast = xIPBroadcast_of cfg ulIPTargetAddress;
          ulMatchAddress = ulMatchAddress_of ulIPSourceAddress ulIPTargetAddress
      in case FreeRTOS_FirstEndPoint s pxIf of
           None \<Rightarrow> None
         | Some first \<Rightarrow>
             (case MatchingEndpoint_IPv4_loop cfg s pxIf xIPBroadcast ulMatchAddress
                     ulIPTargetAddress first of
                None \<Rightarrow> None
              | Some r \<Rightarrow>
                  if xIPBroadcast \<and> r = NULL then FreeRTOS_FirstEndPoint s pxIf
                  else Some r))"

text \<open>
  The block of \<open>case ipIPv6_FRAME_TYPE\<close>, compiled only with \<open>ipconfigUSE_IPv6\<close>; its
  fallback to the first IPv6 end-point of the interface only with \<open>ipconfigUSE_LLMNR\<close>.
\<close>

definition MatchingEndpoint_IPv6 ::
  "config \<Rightarrow> state \<Rightarrow> if_ptr \<Rightarrow> ProtocolPacket \<Rightarrow> ep_ptr option"
where
  "MatchingEndpoint_IPv6 cfg s pxIf pxPacket =
     (case endpoint_scan
             (\<lambda>e. bIPv6 e \<and> pxNetworkInterface e = pxIf \<and>
                   xCompareIPv6_Address cfg (xIPAddress (ipv6_settings e))
                     (xDestinationAddress pxPacket)
                     (uxPrefixLength (ipv6_settings e)) = 0)
             (endpoints s) (pxNetworkEndPoints s) of
        None \<Rightarrow> None
      | Some r \<Rightarrow>
          if ipconfigUSE_LLMNR cfg \<and> r = NULL \<and>
             xCompareIPv6_Address cfg (ipLLMNR_IP_ADDR_IPv6 cfg)
               (xDestinationAddress pxPacket) (8 * ipSIZE_OF_IPv6_ADDRESS) = 0
          then FreeRTOS_FirstEndPoint_IPv6 s pxIf
          else Some r)"

text \<open>
  \<open>FreeRTOS_MatchingEndpoint\<close>. The frame is passed as the record of the fields read
  from it, so the model covers the calls with a non-\<open>NULL\<close>, aligned buffer (the two
  \<open>configASSERT\<close>s of the source). The \<open>switch\<close> on the frame type is the chain of
  \<open>if\<close>s in the order of its \<open>case\<close> labels; an unsupported frame type leaves the
  initial \<open>NULL\<close>.
\<close>

definition FreeRTOS_MatchingEndpoint ::
  "config \<Rightarrow> state \<Rightarrow> if_ptr \<Rightarrow> ProtocolPacket \<Rightarrow> ep_ptr option"
where
  "FreeRTOS_MatchingEndpoint cfg s pxIf pxPacket =
     (if ipconfigUSE_IPv6 cfg \<and> usFrameType pxPacket = ipIPv6_FRAME_TYPE cfg
      then MatchingEndpoint_IPv6 cfg s pxIf pxPacket
      else if usFrameType pxPacket = ipARP_FRAME_TYPE cfg
      then FreeRTOS_FindEndPointOnIP_IPv4 cfg s (ulTargetProtocolAddress pxPacket) 3
      else if usFrameType pxPacket = ipIPv4_FRAME_TYPE cfg
      then MatchingEndpoint_IPv4 cfg s pxIf pxPacket
      else Some NULL)"

subsection \<open>Lookups, compatibility build\<close>

text \<open>
  The compatibility build reads \<open>pxNetworkEndPoints\<close> only. Where the source reads a
  field through that pointer, a \<open>NULL\<close> pointer is the error \<open>NullDereference\<close>. In
  \<open>FreeRTOS_FindEndPointOnIP_IPv4\<close> the read is the right operand of \<open>||\<close> and happens
  only when the left operand is false.
\<close>

definition FreeRTOS_FindEndPointOnIP_IPv4_single ::
  "state \<Rightarrow> uint32_t \<Rightarrow> uint32_t \<Rightarrow> error + ep_ptr"
where
  "FreeRTOS_FindEndPointOnIP_IPv4_single s ulIP ulWhere =
     (if ulIP = 0 then Inr (pxNetworkEndPoints s)
      else if pxNetworkEndPoints s = NULL then Inl NullDereference
      else if ulIPAddress (ipv4_settings (endpoints s (pxNetworkEndPoints s))) = ulIP
      then Inr (pxNetworkEndPoints s)
      else Inr NULL)"

definition FreeRTOS_FindEndPointOnMAC_single ::
  "state \<Rightarrow> MACAddress \<Rightarrow> if_ptr \<Rightarrow> error + ep_ptr"
where
  "FreeRTOS_FindEndPointOnMAC_single s pxMACAddress pxInterface =
     (if pxNetworkEndPoints s = NULL then Inl NullDereference
      else if memcmp_eq (xMACAddress (endpoints s (pxNetworkEndPoints s))) pxMACAddress
                ipMAC_ADDRESS_LENGTH_BYTES
      then Inr (pxNetworkEndPoints s)
      else Inr NULL)"

definition FreeRTOS_InterfaceEndPointOnNetMask_single ::
  "state \<Rightarrow> if_ptr \<Rightarrow> uint32_t \<Rightarrow> uint32_t \<Rightarrow> error + ep_ptr"
where
  "FreeRTOS_InterfaceEndPointOnNetMask_single s pxInterface ulIP ulWhere =
     (if pxNetworkEndPoints s = NULL then Inl NullDereference
      else if ((ulIP XOR ulIPAddress (ipv4_settings (endpoints s (pxNetworkEndPoints s))))
                 AND ulNetMask (ipv4_settings (endpoints s (pxNetworkEndPoints s)))) = 0
      then Inr (pxNetworkEndPoints s)
      else Inr NULL)"

definition FreeRTOS_FindEndPointOnNetMask_single ::
  "state \<Rightarrow> uint32_t \<Rightarrow> uint32_t \<Rightarrow> error + ep_ptr"
where
  "FreeRTOS_FindEndPointOnNetMask_single s ulIP ulWhere =
     FreeRTOS_InterfaceEndPointOnNetMask_single s NULL ulIP ulWhere"

definition FreeRTOS_FindGateWay_single :: "state \<Rightarrow> int \<Rightarrow> error + ep_ptr" where
  "FreeRTOS_FindGateWay_single s xIPType =
     (if pxNetworkEndPoints s \<noteq> NULL
      then (if ulGatewayAddress (ipv4_settings (endpoints s (pxNetworkEndPoints s))) \<noteq> 0
            then Inr (pxNetworkEndPoints s)
            else Inr NULL)
      else Inr NULL)"

definition FreeRTOS_FirstEndPoint_single :: "state \<Rightarrow> if_ptr \<Rightarrow> error + ep_ptr" where
  "FreeRTOS_FirstEndPoint_single s pxInterface = Inr (pxNetworkEndPoints s)"

definition FreeRTOS_FirstNetworkInterface_single :: "state \<Rightarrow> error + if_ptr" where
  "FreeRTOS_FirstNetworkInterface_single s = Inr (pxNetworkInterfaces s)"

definition FreeRTOS_MatchingEndpoint_single ::
  "state \<Rightarrow> if_ptr \<Rightarrow> ProtocolPacket \<Rightarrow> error + ep_ptr"
where
  "FreeRTOS_MatchingEndpoint_single s pxIf pxPacket = Inr (pxNetworkEndPoints s)"

definition FreeRTOS_NextEndPoint_single :: "state \<Rightarrow> if_ptr \<Rightarrow> ep_ptr \<Rightarrow> error + ep_ptr" where
  "FreeRTOS_NextEndPoint_single s pxInterface pxEP = Inr NULL"

definition FreeRTOS_NextNetworkInterface_single :: "state \<Rightarrow> if_ptr \<Rightarrow> error + if_ptr" where
  "FreeRTOS_NextNetworkInterface_single s pxInterface = Inr NULL"

subsection \<open>Lists in the store\<close>

text \<open>
  \<open>endpoint_list eps p xs\<close>: following \<open>pxNext\<close> from \<open>p\<close> visits exactly the end-points
  \<open>xs\<close>, in this order, and then reaches \<open>NULL\<close>. \<open>interface_list\<close> is the same for
  the interfaces. The order of the list is the order of registration, since both
  \<open>Add\<close> functions link a new object behind the last one.
\<close>

fun endpoint_list :: "(ep_ptr \<Rightarrow> NetworkEndPoint) \<Rightarrow> ep_ptr \<Rightarrow> ep_ptr list \<Rightarrow> bool" where
  "endpoint_list eps p [] = (p = NULL)"
| "endpoint_list eps p (x # xs) = (p = x \<and> x \<noteq> NULL \<and> endpoint_list eps (pxNext (eps x)) xs)"

fun interface_list :: "(if_ptr \<Rightarrow> NetworkInterface) \<Rightarrow> if_ptr \<Rightarrow> if_ptr list \<Rightarrow> bool" where
  "interface_list ifs p [] = (p = NULL)"
| "interface_list ifs p (x # xs) =
     (p = x \<and> x \<noteq> NULL \<and> interface_list ifs (pxNextInterface (ifs x)) xs)"

subsection \<open>Vocabulary of the properties\<close>

text \<open>
  \<open>first_where P xs\<close> is the first pointer of \<open>xs\<close>, in the order of the list, that
  satisfies \<open>P\<close>, and \<open>NULL\<close> when there is none.
\<close>

fun first_where :: "(nat \<Rightarrow> bool) \<Rightarrow> nat list \<Rightarrow> nat" where
  "first_where P [] = NULL"
| "first_where P (x # xs) = (if P x then x else first_where P xs)"

text \<open>
  The interface filter of the lookups: \<open>NULL\<close> stands for any interface. An end-point
  counts as IPv4 when its \<open>bIPv6\<close> bit is clear; a build without \<open>ipconfigUSE_IPv6\<close>
  has no such bit and every end-point is IPv4.
\<close>

definition bound_to :: "state \<Rightarrow> if_ptr \<Rightarrow> ep_ptr \<Rightarrow> bool" where
  "bound_to s pxIf q = (pxIf = NULL \<or> pxNetworkInterface (endpoints s q) = pxIf)"

definition is_IPv4_endpoint :: "config \<Rightarrow> state \<Rightarrow> ep_ptr \<Rightarrow> bool" where
  "is_IPv4_endpoint cfg s q = (\<not> (ipconfigUSE_IPv6 cfg \<and> bIPv6 (endpoints s q)))"

text \<open>A frame that the \<open>switch\<close> of \<open>FreeRTOS_MatchingEndpoint\<close> sends to its IPv4 case.\<close>

definition is_IPv4_frame :: "config \<Rightarrow> ProtocolPacket \<Rightarrow> bool" where
  "is_IPv4_frame cfg pxPacket =
     (\<not> (ipconfigUSE_IPv6 cfg \<and> usFrameType pxPacket = ipIPv6_FRAME_TYPE cfg) \<and>
      usFrameType pxPacket \<noteq> ipARP_FRAME_TYPE cfg \<and>
      usFrameType pxPacket = ipIPv4_FRAME_TYPE cfg)"

text \<open>
  The end-points at which the IPv4 loop stops: an IPv4 end-point for which the chain of
  the three rules sets \<open>xDone\<close>.
\<close>

definition accepts ::
  "config \<Rightarrow> state \<Rightarrow> bool \<Rightarrow> uint32_t \<Rightarrow> uint32_t \<Rightarrow> ep_ptr \<Rightarrow> bool"
where
  "accepts cfg s xIPBroadcast ulMatchAddress ulIPTargetAddress q =
     (is_IPv4_endpoint cfg s q \<and>
      xDone_of cfg xIPBroadcast ulMatchAddress ulIPTargetAddress (endpoints s q))"

text \<open>
  The subnet equation of \<open>FreeRTOS_InterfaceEndPointOnNetMask\<close> for the end-point \<open>q\<close>.
\<close>

definition on_netmask :: "state \<Rightarrow> uint32_t \<Rightarrow> ep_ptr \<Rightarrow> bool" where
  "on_netmask s ulIP q =
     ((ulIP AND ulNetMask (ipv4_settings (endpoints s q))) =
      (ulIPAddress (ipv4_settings (endpoints s q))
         AND ulNetMask (ipv4_settings (endpoints s q))))"

text \<open>
  A configuration of exactly one interface \<open>i\<close> and one end-point \<open>e\<close>, as the
  compatibility build assumes it: both lists have one element, the end-point belongs
  to the interface, and it is an IPv4 end-point (\<open>FreeRTOS_FillEndPoint\<close> is the only
  way to configure one in that build).
\<close>

definition single_configuration :: "state \<Rightarrow> if_ptr \<Rightarrow> ep_ptr \<Rightarrow> bool" where
  "single_configuration s i e =
     (i \<noteq> NULL \<and> e \<noteq> NULL \<and>
      pxNetworkInterfaces s = i \<and> pxNextInterface (interfaces s i) = NULL \<and>
      pxNetworkEndPoints s = e \<and> pxNext (endpoints s e) = NULL \<and>
      pxNetworkInterface (endpoints s e) = i \<and> \<not> bIPv6 (endpoints s e))"

text \<open>
  The result of a lookup of the general build and the result of the lookup of the
  compatibility build agree: both return, and return the same pointer.
\<close>

definition agree :: "ep_ptr option \<Rightarrow> error + ep_ptr \<Rightarrow> bool" where
  "agree g c = (case g of None \<Rightarrow> False
                | Some r \<Rightarrow> (case c of Inl err \<Rightarrow> False | Inr r' \<Rightarrow> r = r'))"

text \<open>A sequence of calls of \<open>FreeRTOS_AddNetworkInterface\<close>, stopping at an error.\<close>

fun AddNetworkInterface_calls :: "state \<Rightarrow> if_ptr list \<Rightarrow> (error + state) option" where
  "AddNetworkInterface_calls s [] = Some (Inr s)"
| "AddNetworkInterface_calls s (i # is) =
     (case FreeRTOS_AddNetworkInterface s i of
        None \<Rightarrow> None
      | Some (Inl err) \<Rightarrow> Some (Inl err)
      | Some (Inr (r, s')) \<Rightarrow> AddNetworkInterface_calls s' is)"

subsection \<open>Example inputs\<close>

text \<open>
  A little-endian build with IPv6 and LLMNR. The external collaborators are given
  simple stand-ins: the little-endian \<open>FreeRTOS_inet_addr_quick\<close>, a multicast test on
  the first octet (224 to 239), and a byte-wise prefix comparison. An address
  \<open>a.b.c.d\<close> is stored in network byte order, so it reads \<open>0xDDCCBBAA\<close> as a word.
\<close>

definition example_config :: config where
  "example_config =
     \<lparr> ipconfigCOMPATIBLE_WITH_SINGLE = False, ipconfigUSE_IPv6 = True,
       ipconfigUSE_LLMNR = True, ipconfigBYTE_ORDER_LITTLE_ENDIAN = True,
       ipconfigENDPOINT_DNS_ADDRESS_COUNT = 2,
       FreeRTOS_inet_addr_quick = (\<lambda>b0 b1 b2 b3.
          push_bit 24 (ucast b3) OR push_bit 16 (ucast b2) OR push_bit 8 (ucast b1)
            OR ucast b0),
       xIsIPv4Multicast = (\<lambda>a. a AND 0xf0 = 0xe0),
       xCompareIPv6_Address = (\<lambda>a b n. if take (n div 8) a = take (n div 8) b then 0 else 1),
       ipIPv6_FRAME_TYPE = 0xDD86, ipARP_FRAME_TYPE = 0x0608, ipIPv4_FRAME_TYPE = 0x0008,
       ipLLMNR_IP_ADDR_IPv6 = [0xff, 0x02, 0, 0, 0, 0, 0, 0, 0, 0, 0, 0, 0, 1, 0, 3],
       in6addr_any = replicate 16 0 \<rparr>"

definition example_endpoint ::
  "uint32_t \<Rightarrow> uint32_t \<Rightarrow> uint32_t \<Rightarrow> bool \<Rightarrow> if_ptr \<Rightarrow> ep_ptr \<Rightarrow> NetworkEndPoint"
where
  "example_endpoint ip nm gw v6 iface nxt =
     (zero_NetworkEndPoint example_config)
       \<lparr> ipv4_settings := \<lparr> ulIPAddress = ip, ulNetMask = nm, ulGatewayAddress = gw,
            ulDNSServerAddresses = [0, 0], ulBroadcastAddress = ip OR NOT nm \<rparr>,
         bIPv6 := v6, pxNetworkInterface := iface, pxNext := nxt \<rparr>"

text \<open>No interface and no end-point registered.\<close>

definition empty_state :: state where
  "empty_state =
     \<lparr> pxNetworkEndPoints = NULL, pxNetworkInterfaces = NULL,
       endpoints = (\<lambda>_. zero_NetworkEndPoint example_config),
       interfaces = (\<lambda>_. \<lparr> pxEndPoint = NULL, pxNextInterface = NULL \<rparr>) \<rparr>"

text \<open>
  Interface 1 with the end-points 1 = 10.0.0.5/24 and 2 = 192.168.1.5/24, registered
  in this order (the scenario of the specification).
\<close>

definition state_two :: state where
  "state_two =
     \<lparr> pxNetworkEndPoints = 1, pxNetworkInterfaces = 1,
       endpoints = (\<lambda>_. zero_NetworkEndPoint example_config)
          (1 := example_endpoint 0x0500000A 0x00FFFFFF 0 False 1 2,
           2 := example_endpoint 0x0501A8C0 0x00FFFFFF 0 False 1 NULL),
       interfaces = (\<lambda>_. \<lparr> pxEndPoint = NULL, pxNextInterface = NULL \<rparr>)
          (1 := \<lparr> pxEndPoint = 1, pxNextInterface = NULL \<rparr>) \<rparr>"

text \<open>Interface 1 with the single end-point 1 = 10.0.0.5/24, gateway 10.0.0.1.\<close>

definition state_one :: state where
  "state_one =
     \<lparr> pxNetworkEndPoints = 1, pxNetworkInterfaces = 1,
       endpoints = (\<lambda>_. zero_NetworkEndPoint example_config)
          (1 := example_endpoint 0x0500000A 0x00FFFFFF 0x0100000A False 1 NULL),
       interfaces = (\<lambda>_. \<lparr> pxEndPoint = NULL, pxNextInterface = NULL \<rparr>)
          (1 := \<lparr> pxEndPoint = 1, pxNextInterface = NULL \<rparr>) \<rparr>"

text \<open>
  Interface 1 with the IPv4 end-point 1 = 10.0.0.5/24 and the IPv6 end-points 2 and 3.
\<close>

definition state_v6 :: state where
  "state_v6 =
     \<lparr> pxNetworkEndPoints = 1, pxNetworkInterfaces = 1,
       endpoints = (\<lambda>_. zero_NetworkEndPoint example_config)
          (1 := example_endpoint 0x0500000A 0x00FFFFFF 0 False 1 2,
           2 := example_endpoint 0 0 0 True 1 3,
           3 := example_endpoint 0 0 0 True 1 NULL),
       interfaces = (\<lambda>_. \<lparr> pxEndPoint = NULL, pxNextInterface = NULL \<rparr>)
          (1 := \<lparr> pxEndPoint = 1, pxNextInterface = NULL \<rparr>) \<rparr>"

text \<open>An IPv4 frame of the example build, from \<open>src\<close> to \<open>dst\<close>.\<close>

definition example_IPv4_frame :: "uint32_t \<Rightarrow> uint32_t \<Rightarrow> ProtocolPacket" where
  "example_IPv4_frame src dst =
     \<lparr> usFrameType = 0x0008, ulTargetProtocolAddress = 0, ulSourceIPAddress = src,
       ulDestinationIPAddress = dst, xDestinationAddress = replicate 16 0 \<rparr>"

text \<open>
  Interface 1 registered and no end-point yet; the end-point object that
  \<open>FreeRTOS_FillEndPoint\<close> builds for 10.0.0.5/24, gateway 10.0.0.1, DNS 8.8.8.8; and the
  state after the call that fills end-point 1 on interface 1.
\<close>

definition state_interface :: state where
  "state_interface = empty_state \<lparr> pxNetworkInterfaces := 1 \<rparr>"

definition endpoint_filled :: NetworkEndPoint where
  "endpoint_filled =
     (zero_NetworkEndPoint example_config)
             \<lparr> ipv4_settings := \<lparr> ulIPAddress = 0, ulNetMask = 0x00FFFFFF,
                  ulGatewayAddress = 0x0100000A, ulDNSServerAddresses = [0x08080808, 0],
                  ulBroadcastAddress = 0xFF00000A \<rparr>,
               ipv4_defaults := \<lparr> ulIPAddress = 0x0500000A, ulNetMask = 0x00FFFFFF,
                  ulGatewayAddress = 0x0100000A, ulDNSServerAddresses = [0x08080808, 0],
                  ulBroadcastAddress = 0xFF00000A \<rparr>,
               xMACAddress := [0, 1, 2, 3, 4, 5] \<rparr>"

definition state_filled :: state where
  "state_filled =
     \<lparr> pxNetworkEndPoints = 1, pxNetworkInterfaces = 1,
       endpoints = (\<lambda>_. zero_NetworkEndPoint example_config)
          (1 := endpoint_filled \<lparr> pxNext := NULL, pxNetworkInterface := 1 \<rparr>),
       interfaces = (\<lambda>_. \<lparr> pxEndPoint = NULL, pxNextInterface = NULL \<rparr>)
          (1 := \<lparr> pxEndPoint = 1, pxNextInterface = NULL \<rparr>) \<rparr>"

text \<open>
  The subnet test of the second rule of the IPv4 loop for the end-point \<open>q\<close> and the
  address \<open>a\<close>: \<open>( ( address ^ a ) & netmask ) == 0\<close>.
\<close>

definition subnet_rule :: "state \<Rightarrow> uint32_t \<Rightarrow> ep_ptr \<Rightarrow> bool" where
  "subnet_rule s a q =
     (((ulIPAddress (ipv4_settings (endpoints s q)) XOR a)
         AND ulNetMask (ipv4_settings (endpoints s q))) = 0)"

text \<open>
  The functions of the model that change the state: one step is one returning call of
  \<open>FreeRTOS_AddNetworkInterface\<close> (of the build) or of \<open>FreeRTOS_FillEndPoint\<close>, with
  any arguments. A later point in execution is a state reached by any number of steps.
\<close>

inductive routing_step :: "config \<Rightarrow> state \<Rightarrow> state \<Rightarrow> bool" for cfg :: config where
  step_AddNetworkInterface:
    "\<not> ipconfigCOMPATIBLE_WITH_SINGLE cfg \<Longrightarrow>
     FreeRTOS_AddNetworkInterface s pxInterface = Some (Inr (r, s')) \<Longrightarrow>
     routing_step cfg s s'"
| step_AddNetworkInterface_single:
    "ipconfigCOMPATIBLE_WITH_SINGLE cfg \<Longrightarrow>
     FreeRTOS_AddNetworkInterface_single s pxInterface = Inr (r, s') \<Longrightarrow>
     routing_step cfg s s'"
| step_FillEndPoint:
    "FreeRTOS_FillEndPoint cfg s pxInterface pxEP ucIPAddress ucNetMask ucGatewayAddress
       ucDNSServerAddress ucMACAddress = Some (Inr s') \<Longrightarrow>
     routing_step cfg s s'"

text \<open>
  The two equations that every filled end-point keeps: the default broadcast address is
  the default address ORed with the complement of the default netmask, and the current
  broadcast address is the default address ORed with the complement of the current
  netmask.
\<close>

definition broadcast_inv :: "NetworkEndPoint \<Rightarrow> bool" where
  "broadcast_inv e =
     (ulBroadcastAddress (ipv4_defaults e) =
        (ulIPAddress (ipv4_defaults e) OR NOT (ulNetMask (ipv4_defaults e))) \<and>
      ulBroadcastAddress (ipv4_settings e) =
        (ulIPAddress (ipv4_defaults e) OR NOT (ulNetMask (ipv4_settings e))))"

text \<open>
  The object that \<open>FreeRTOS_FillEndPoint\<close> builds for 192.168.1.5/24, gateway
  192.168.1.1, and the state after filling it into end-point 2 of interface 1, behind
  end-point 1 = 10.0.0.5/24. Both current addresses are zero.
\<close>

definition endpoint_filled_2 :: NetworkEndPoint where
  "endpoint_filled_2 =
     (zero_NetworkEndPoint example_config)
       \<lparr> ipv4_settings := \<lparr> ulIPAddress = 0, ulNetMask = 0x00FFFFFF,
            ulGatewayAddress = 0x0101A8C0, ulDNSServerAddresses = [0x08080808, 0],
            ulBroadcastAddress = 0xFF01A8C0 \<rparr>,
         ipv4_defaults := \<lparr> ulIPAddress = 0x0501A8C0, ulNetMask = 0x00FFFFFF,
            ulGatewayAddress = 0x0101A8C0, ulDNSServerAddresses = [0x08080808, 0],
            ulBroadcastAddress = 0xFF01A8C0 \<rparr>,
         xMACAddress := [0, 1, 2, 3, 4, 6] \<rparr>"

definition state_filled_two :: state where
  "state_filled_two =
     \<lparr> pxNetworkEndPoints = 1, pxNetworkInterfaces = 1,
       endpoints = (\<lambda>_. zero_NetworkEndPoint example_config)
          (1 := endpoint_filled \<lparr> pxNext := 2, pxNetworkInterface := 1 \<rparr>,
           2 := endpoint_filled_2 \<lparr> pxNext := NULL, pxNetworkInterface := 1 \<rparr>),
       interfaces = (\<lambda>_. \<lparr> pxEndPoint = NULL, pxNextInterface = NULL \<rparr>)
          (1 := \<lparr> pxEndPoint = 1, pxNextInterface = NULL \<rparr>) \<rparr>"

section \<open>Properties\<close>

subsection \<open>Lists in the store and the scan\<close>

lemma endpoint_list_no_NULL: "endpoint_list eps p xs \<Longrightarrow> NULL \<notin> set xs"
  by (induction xs arbitrary: p) auto

lemma first_where_NULL_iff:
  "NULL \<notin> set xs \<Longrightarrow> (first_where P xs = NULL) = (\<forall>x \<in> set xs. \<not> P x)"
  by (induction xs) auto

lemma first_where_found:
  "first_where P xs \<noteq> NULL \<Longrightarrow> first_where P xs \<in> set xs \<and> P (first_where P xs)"
  by (induction xs) (auto split: if_splits)

lemma first_where_dropWhile:
  "first_where (\<lambda>q. P q \<and> Q q) (dropWhile (\<lambda>q. \<not> P q) xs) = first_where (\<lambda>q. P q \<and> Q q) xs"
  by (induction xs) auto

lemma endpoint_list_dropWhile:
  "endpoint_list eps p xs \<Longrightarrow>
   endpoint_list eps (first_where P xs) (dropWhile (\<lambda>q. \<not> P q) xs)"
  by (induction xs arbitrary: p) auto

text \<open>On a well-formed list the scan returns, with the first end-point that passes the test.\<close>

lemma endpoint_scan_list:
  "endpoint_list eps p xs \<Longrightarrow>
   endpoint_scan test eps p = Some (first_where (\<lambda>q. test (eps q)) xs)"
proof (induction xs arbitrary: p)
  case Nil
  then show ?case by (simp add: endpoint_scan.simps)
next
  case (Cons x xs)
  then have px: "p = x" "x \<noteq> NULL" and tl: "endpoint_list eps (pxNext (eps x)) xs"
    by simp_all
  show ?case
  proof (cases "test (eps x)")
    case True
    then show ?thesis using px by (subst endpoint_scan.simps) simp
  next
    case False
    then show ?thesis using px Cons.IH [OF tl] by (subst endpoint_scan.simps) simp
  qed
qed

lemma FreeRTOS_FirstEndPoint_list:
  "endpoint_list (endpoints s) (pxNetworkEndPoints s) xs \<Longrightarrow>
   FreeRTOS_FirstEndPoint s pxIf = Some (first_where (bound_to s pxIf) xs)"
  unfolding FreeRTOS_FirstEndPoint_def bound_to_def by (rule endpoint_scan_list)

lemma FreeRTOS_NextEndPoint_list:
  "endpoint_list (endpoints s) x (x # xs) \<Longrightarrow>
   FreeRTOS_NextEndPoint s pxIf x = Some (first_where (bound_to s pxIf) xs)"
  unfolding FreeRTOS_NextEndPoint_def bound_to_def
  using endpoint_scan_list [of "endpoints s" "pxNext (endpoints s x)" xs] by simp

subsection \<open>The IPv4 case of the frame matcher\<close>

text \<open>
  Entered at an end-point of the interface, the loop returns the first end-point of the
  interface that it accepts.
\<close>

lemma MatchingEndpoint_IPv4_loop_list:
  "endpoint_list (endpoints s) p ys \<Longrightarrow> (ys \<noteq> [] \<longrightarrow> bound_to s pxIf (hd ys)) \<Longrightarrow>
   MatchingEndpoint_IPv4_loop cfg s pxIf b m t p =
     Some (first_where (\<lambda>q. bound_to s pxIf q \<and> accepts cfg s b m t q) ys)"
proof (induction ys arbitrary: p rule: length_induct)
  case (1 ys)
  show ?case
  proof (cases ys)
    case Nil
    then show ?thesis using "1.prems" by (subst MatchingEndpoint_IPv4_loop.simps) simp
  next
    case (Cons x rest)
    with "1.prems" have px: "p = x" "x \<noteq> NULL" and bx: "bound_to s pxIf x"
      and lx: "endpoint_list (endpoints s) x (x # rest)"
      by simp_all
    let ?n = "first_where (bound_to s pxIf) rest"
    let ?zs = "dropWhile (\<lambda>q. \<not> bound_to s pxIf q) rest"
    have nxt: "FreeRTOS_NextEndPoint s pxIf x = Some ?n"
      by (rule FreeRTOS_NextEndPoint_list [OF lx])
    have "endpoint_list (endpoints s) (pxNext (endpoints s x)) rest"
      using lx by simp
    then have lz: "endpoint_list (endpoints s) ?n ?zs"
      by (rule endpoint_list_dropWhile)
    have hz: "?zs \<noteq> [] \<longrightarrow> bound_to s pxIf (hd ?zs)"
      using hd_dropWhile [of "\<lambda>q. \<not> bound_to s pxIf q" rest] by simp
    have "length ?zs < length ys"
      using Cons length_dropWhile_le [of "\<lambda>q. \<not> bound_to s pxIf q" rest] by simp
    with "1.IH" lz hz
    have ih: "MatchingEndpoint_IPv4_loop cfg s pxIf b m t ?n =
        Some (first_where (\<lambda>q. bound_to s pxIf q \<and> accepts cfg s b m t q) ?zs)"
      by blast
    have rest_eq: "first_where (\<lambda>q. bound_to s pxIf q \<and> accepts cfg s b m t q) ?zs =
        first_where (\<lambda>q. bound_to s pxIf q \<and> accepts cfg s b m t q) rest"
      by (rule first_where_dropWhile)
    show ?thesis
    proof (cases "accepts cfg s b m t x")
      case True
      then show ?thesis using px bx Cons
        by (subst MatchingEndpoint_IPv4_loop.simps)
           (auto simp add: accepts_def is_IPv4_endpoint_def)
    next
      case False
      then show ?thesis using px bx Cons nxt ih rest_eq
        by (subst MatchingEndpoint_IPv4_loop.simps)
           (auto simp add: accepts_def is_IPv4_endpoint_def)
    qed
  qed
qed

lemma FreeRTOS_MatchingEndpoint_IPv4_frame:
  assumes f: "is_IPv4_frame cfg pxPacket"
  shows "FreeRTOS_MatchingEndpoint cfg s pxIf pxPacket = MatchingEndpoint_IPv4 cfg s pxIf pxPacket"
proof -
  have t6: "\<not> (ipconfigUSE_IPv6 cfg \<and> usFrameType pxPacket = ipIPv6_FRAME_TYPE cfg)"
    and ta: "usFrameType pxPacket \<noteq> ipARP_FRAME_TYPE cfg"
    and t4: "usFrameType pxPacket = ipIPv4_FRAME_TYPE cfg"
    using f unfolding is_IPv4_frame_def by blast+
  show ?thesis
    unfolding FreeRTOS_MatchingEndpoint_def
    by (simp only: t6 ta if_False) (simp add: t4)
qed

text \<open>
  The IPv4 case on a well-formed list: the first end-point of the interface that the
  loop accepts; when there is none and the frame is a broadcast, the first end-point of
  the interface.
\<close>

lemma MatchingEndpoint_IPv4_list:
  assumes l: "endpoint_list (endpoints s) (pxNetworkEndPoints s) xs"
    and b: "b = xIPBroadcast_of cfg (ulDestinationIPAddress pxPacket)"
    and m: "m = ulMatchAddress_of (ulSourceIPAddress pxPacket) (ulDestinationIPAddress pxPacket)"
    and r: "r = first_where (\<lambda>q. bound_to s pxIf q \<and>
                  accepts cfg s b m (ulDestinationIPAddress pxPacket) q) xs"
  shows "MatchingEndpoint_IPv4 cfg s pxIf pxPacket =
     Some (if b \<and> r = NULL then first_where (bound_to s pxIf) xs else r)"
proof -
  let ?zs = "dropWhile (\<lambda>q. \<not> bound_to s pxIf q) xs"
  have first: "FreeRTOS_FirstEndPoint s pxIf = Some (first_where (bound_to s pxIf) xs)"
    by (rule FreeRTOS_FirstEndPoint_list [OF l])
  have lz: "endpoint_list (endpoints s) (first_where (bound_to s pxIf) xs) ?zs"
    by (rule endpoint_list_dropWhile [OF l])
  have hz: "?zs \<noteq> [] \<longrightarrow> bound_to s pxIf (hd ?zs)"
    using hd_dropWhile [of "\<lambda>q. \<not> bound_to s pxIf q" xs] by simp
  have loop: "MatchingEndpoint_IPv4_loop cfg s pxIf b m (ulDestinationIPAddress pxPacket)
        (first_where (bound_to s pxIf) xs) = Some r"
    using MatchingEndpoint_IPv4_loop_list [OF lz hz, of cfg b m "ulDestinationIPAddress pxPacket"]
    by (simp only: first_where_dropWhile r)
  have "MatchingEndpoint_IPv4 cfg s pxIf pxPacket =
      (if b \<and> r = NULL then FreeRTOS_FirstEndPoint s pxIf else Some r)"
    unfolding MatchingEndpoint_IPv4_def Let_def b [symmetric] m [symmetric]
    by (simp only: first loop option.case)
  then show ?thesis
    by (simp add: first)
qed

subsection \<open>Registration order\<close>

text \<open>
  A list in the store is determined by its first pointer and has no pointer twice.
  Registering an object that is not yet in its list returns and links the object behind
  the last one, so both lists are in the order of registration.
\<close>

lemma interface_list_unique:
  "interface_list ifs p xs \<Longrightarrow> interface_list ifs p ys \<Longrightarrow> xs = ys"
proof (induction xs arbitrary: p ys)
  case Nil
  then show ?case by (cases ys) auto
next
  case (Cons x xs)
  then show ?case by (cases ys) auto
qed

lemma interface_list_suffix:
  "interface_list ifs p (us @ a # vs) \<Longrightarrow> interface_list ifs a (a # vs)"
  by (induction us arbitrary: p) auto

lemma interface_list_head_fresh:
  assumes "interface_list ifs a (a # xs)"
  shows "a \<notin> set xs"
proof
  assume "a \<in> set xs"
  then obtain us vs where xs: "xs = us @ a # vs"
    by (auto simp add: in_set_conv_decomp)
  have "interface_list ifs a ((a # us) @ a # vs)"
    using assms xs by simp
  then have "interface_list ifs a (a # vs)"
    by (rule interface_list_suffix)
  with assms have "a # xs = a # vs"
    by (rule interface_list_unique)
  with xs show False by simp
qed

lemma interface_list_update_outside:
  "x \<notin> set xs \<Longrightarrow> interface_list (ifs (x := v)) p xs = interface_list ifs p xs"
  by (induction xs arbitrary: p) auto

lemma AddNetworkInterface_loop_appends:
  "interface_list ifs p xs \<Longrightarrow> xs \<noteq> [] \<Longrightarrow> x \<notin> set xs \<Longrightarrow> x \<noteq> NULL \<Longrightarrow>
   pxNextInterface (ifs x) = NULL \<Longrightarrow>
   \<exists>ifs'. AddNetworkInterface_loop ifs x p = Some ifs' \<and>
          interface_list ifs' p (xs @ [x]) \<and> (\<forall>q. q \<notin> set xs \<longrightarrow> ifs' q = ifs q)"
proof (induction xs arbitrary: p)
  case Nil
  then show ?case by simp
next
  case (Cons a rest)
  then have pa: "p = a" "a \<noteq> NULL" "a \<noteq> x"
    and tl: "interface_list ifs (pxNextInterface (ifs a)) rest"
    and la: "interface_list ifs a (a # rest)"
    by auto
  have fresh: "a \<notin> set rest"
    by (rule interface_list_head_fresh [OF la])
  show ?case
  proof (cases rest)
    case Nil
    with tl have last: "pxNextInterface (ifs a) = NULL" by simp
    let ?ifs' = "ifs (a := (ifs a) \<lparr> pxNextInterface := x \<rparr>)"
    have "AddNetworkInterface_loop ifs x p = Some ?ifs'"
      using pa last by (subst AddNetworkInterface_loop.simps) simp
    moreover have "interface_list ?ifs' p ((a # rest) @ [x])"
      using pa Nil Cons.prems by simp
    moreover have "\<forall>q. q \<notin> set (a # rest) \<longrightarrow> ?ifs' q = ifs q"
      by simp
    ultimately show ?thesis by blast
  next
    case (Cons b rest')
    with tl have nb: "pxNextInterface (ifs a) = b" "b \<noteq> NULL" by simp_all
    have "rest \<noteq> []" "x \<notin> set rest"
      using Cons Cons.prems by auto
    with Cons.IH [OF tl] Cons.prems
    obtain ifs' where loop: "AddNetworkInterface_loop ifs x (pxNextInterface (ifs a)) = Some ifs'"
      and l': "interface_list ifs' (pxNextInterface (ifs a)) (rest @ [x])"
      and same: "\<forall>q. q \<notin> set rest \<longrightarrow> ifs' q = ifs q"
      by blast
    have "AddNetworkInterface_loop ifs x p = Some ifs'"
      using pa nb loop by (subst AddNetworkInterface_loop.simps) simp
    moreover have "ifs' a = ifs a"
      using same fresh by blast
    then have "interface_list ifs' p ((a # rest) @ [x])"
      using pa l' by simp
    moreover have "\<forall>q. q \<notin> set (a # rest) \<longrightarrow> ifs' q = ifs q"
      using same by simp
    ultimately show ?thesis by blast
  qed
qed

text \<open>Registering an interface that is not in the list links it behind the last one.\<close>

lemma FreeRTOS_AddNetworkInterface_appends:
  assumes l: "interface_list (interfaces s) (pxNetworkInterfaces s) xs"
    and x: "x \<notin> set xs" "x \<noteq> NULL"
  shows "\<exists>s'. FreeRTOS_AddNetworkInterface s x = Some (Inr (x, s')) \<and>
           interface_list (interfaces s') (pxNetworkInterfaces s') (xs @ [x])"
proof -
  let ?ifs2 = "(interfaces s) (x := \<lparr> pxEndPoint = NULL, pxNextInterface = NULL \<rparr>)"
  have l2: "interface_list ?ifs2 (pxNetworkInterfaces s) xs"
    using l x by (simp add: interface_list_update_outside)
  show ?thesis
  proof (cases xs)
    case Nil
    with l have "pxNetworkInterfaces s = NULL" by simp
    then show ?thesis using x Nil
      by (simp add: FreeRTOS_AddNetworkInterface_def Let_def)
  next
    case (Cons a rest)
    with l have hd: "pxNetworkInterfaces s \<noteq> NULL" by simp
    have "xs \<noteq> []" using Cons by simp
    with AddNetworkInterface_loop_appends [OF l2 _ x(1) x(2)]
    obtain ifs' where loop: "AddNetworkInterface_loop ?ifs2 x (pxNetworkInterfaces s) = Some ifs'"
      and l': "interface_list ifs' (pxNetworkInterfaces s) (xs @ [x])"
      by auto
    have upd: "(interfaces s) (x := interfaces s x \<lparr> pxNextInterface := NULL,
        pxEndPoint := NULL \<rparr>) = ?ifs2"
      by (cases "interfaces s x") simp
    show ?thesis
      using x hd loop l' upd by (simp add: FreeRTOS_AddNetworkInterface_def Let_def)
  qed
qed

text \<open>A sequence of registrations of distinct interfaces gives the list in call order.\<close>

lemma AddNetworkInterface_calls_distinct:
  "interface_list (interfaces s) (pxNetworkInterfaces s) xs \<Longrightarrow> distinct (xs @ is) \<Longrightarrow>
   NULL \<notin> set is \<Longrightarrow>
   \<exists>s'. AddNetworkInterface_calls s is = Some (Inr s') \<and>
        interface_list (interfaces s') (pxNetworkInterfaces s') (xs @ is)"
proof (induction "is" arbitrary: s xs)
  case Nil
  then show ?case by simp
next
  case (Cons i rest)
  then have "i \<notin> set xs" "i \<noteq> NULL" by auto
  with FreeRTOS_AddNetworkInterface_appends [OF Cons.prems(1)]
  obtain s1 where a: "FreeRTOS_AddNetworkInterface s i = Some (Inr (i, s1))"
    and l1: "interface_list (interfaces s1) (pxNetworkInterfaces s1) (xs @ [i])"
    by blast
  have "distinct ((xs @ [i]) @ rest)" "NULL \<notin> set rest"
    using Cons.prems by auto
  with Cons.IH [OF l1]
  obtain s' where "AddNetworkInterface_calls s1 rest = Some (Inr s')"
    and "interface_list (interfaces s') (pxNetworkInterfaces s') ((xs @ [i]) @ rest)"
    by blast
  then show ?case using a by simp
qed

lemma endpoint_list_unique:
  "endpoint_list eps p xs \<Longrightarrow> endpoint_list eps p ys \<Longrightarrow> xs = ys"
proof (induction xs arbitrary: p ys)
  case Nil
  then show ?case by (cases ys) auto
next
  case (Cons x xs)
  then show ?case by (cases ys) auto
qed

lemma endpoint_list_suffix:
  "endpoint_list eps p (us @ a # vs) \<Longrightarrow> endpoint_list eps a (a # vs)"
  by (induction us arbitrary: p) auto

lemma endpoint_list_head_fresh:
  assumes "endpoint_list eps a (a # xs)"
  shows "a \<notin> set xs"
proof
  assume "a \<in> set xs"
  then obtain us vs where xs: "xs = us @ a # vs"
    by (auto simp add: in_set_conv_decomp)
  have "endpoint_list eps a ((a # us) @ a # vs)"
    using assms xs by simp
  then have "endpoint_list eps a (a # vs)"
    by (rule endpoint_list_suffix)
  with assms have "a # xs = a # vs"
    by (rule endpoint_list_unique)
  with xs show False by simp
qed

lemma endpoint_list_update_outside:
  "x \<notin> set xs \<Longrightarrow> endpoint_list (eps (x := v)) p xs = endpoint_list eps p xs"
  by (induction xs arbitrary: p) auto

lemma AddEndPoint_loop_appends:
  "endpoint_list eps p xs \<Longrightarrow> xs \<noteq> [] \<Longrightarrow> x \<notin> set xs \<Longrightarrow> x \<noteq> NULL \<Longrightarrow>
   pxNext (eps x) = NULL \<Longrightarrow>
   \<exists>eps'. AddEndPoint_loop eps x p = Some eps' \<and>
          endpoint_list eps' p (xs @ [x]) \<and> (\<forall>q. q \<notin> set xs \<longrightarrow> eps' q = eps q)"
proof (induction xs arbitrary: p)
  case Nil
  then show ?case by simp
next
  case (Cons a rest)
  then have pa: "p = a" "a \<noteq> NULL" "a \<noteq> x"
    and tl: "endpoint_list eps (pxNext (eps a)) rest"
    and la: "endpoint_list eps a (a # rest)"
    by auto
  have fresh: "a \<notin> set rest"
    by (rule endpoint_list_head_fresh [OF la])
  show ?case
  proof (cases rest)
    case Nil
    with tl have last: "pxNext (eps a) = NULL" by simp
    let ?eps' = "eps (a := (eps a) \<lparr> pxNext := x \<rparr>)"
    have "AddEndPoint_loop eps x p = Some ?eps'"
      using pa last by (subst AddEndPoint_loop.simps) simp
    moreover have "endpoint_list ?eps' p ((a # rest) @ [x])"
      using pa Nil Cons.prems by simp
    moreover have "\<forall>q. q \<notin> set (a # rest) \<longrightarrow> ?eps' q = eps q"
      by simp
    ultimately show ?thesis by blast
  next
    case (Cons b rest')
    with tl have nb: "pxNext (eps a) = b" "b \<noteq> NULL" by simp_all
    have "rest \<noteq> []" "x \<notin> set rest"
      using Cons Cons.prems by auto
    with Cons.IH [OF tl] Cons.prems
    obtain eps' where loop: "AddEndPoint_loop eps x (pxNext (eps a)) = Some eps'"
      and l': "endpoint_list eps' (pxNext (eps a)) (rest @ [x])"
      and same: "\<forall>q. q \<notin> set rest \<longrightarrow> eps' q = eps q"
      by blast
    have "AddEndPoint_loop eps x p = Some eps'"
      using pa nb loop by (subst AddEndPoint_loop.simps) simp
    moreover have "eps' a = eps a"
      using same fresh by blast
    then have "endpoint_list eps' p ((a # rest) @ [x])"
      using pa l' by simp
    moreover have "\<forall>q. q \<notin> set (a # rest) \<longrightarrow> eps' q = eps q"
      using same by simp
    ultimately show ?thesis by blast
  qed
qed

text \<open>Adding an end-point that is not in the list links it behind the last one.\<close>

lemma FreeRTOS_AddEndPoint_appends:
  assumes l: "endpoint_list (endpoints s) (pxNetworkEndPoints s) xs"
    and x: "x \<notin> set xs" "x \<noteq> NULL" and i: "pxIf \<noteq> NULL"
  shows "\<exists>s'. FreeRTOS_AddEndPoint s pxIf x = Some (Inr (x, s')) \<and>
           endpoint_list (endpoints s') (pxNetworkEndPoints s') (xs @ [x])"
proof -
  let ?eps2 = "(endpoints s) (x := endpoints s x \<lparr> pxNext := NULL,
      pxNetworkInterface := pxIf \<rparr>)"
  have l2: "endpoint_list ?eps2 (pxNetworkEndPoints s) xs"
    using l x by (simp add: endpoint_list_update_outside)
  show ?thesis
  proof (cases xs)
    case Nil
    with l have "pxNetworkEndPoints s = NULL" by simp
    then show ?thesis using x i Nil
      by (simp add: FreeRTOS_AddEndPoint_def Let_def)
  next
    case (Cons a rest)
    with l have hd: "pxNetworkEndPoints s \<noteq> NULL" by simp
    have "xs \<noteq> []" using Cons by simp
    with AddEndPoint_loop_appends [OF l2 _ x(1) x(2)]
    obtain eps' where loop: "AddEndPoint_loop ?eps2 x (pxNetworkEndPoints s) = Some eps'"
      and l': "endpoint_list eps' (pxNetworkEndPoints s) (xs @ [x])"
      by auto
    show ?thesis
      using x i hd loop l' by (simp add: FreeRTOS_AddEndPoint_def Let_def)
  qed
qed

text \<open>
  In the general build, filling an end-point that is not in the list returns, and the
  end-point is the last of the list: the list is in the order of registration.
\<close>

lemma FreeRTOS_FillEndPoint_appends:
  assumes g: "\<not> ipconfigCOMPATIBLE_WITH_SINGLE cfg"
    and l: "endpoint_list (endpoints s) (pxNetworkEndPoints s) xs"
    and x: "x \<notin> set xs" "x \<noteq> NULL" and i: "pxIf \<noteq> NULL"
  shows "\<exists>s'. FreeRTOS_FillEndPoint cfg s pxIf x ucIPAddress ucNetMask ucGatewayAddress
                ucDNSServerAddress ucMACAddress = Some (Inr s') \<and>
           endpoint_list (endpoints s') (pxNetworkEndPoints s') (xs @ [x])"
proof -
  let ?s1 = "s \<lparr> endpoints := (endpoints s) (x :=
      FillEndPoint_object cfg ucIPAddress ucNetMask ucGatewayAddress
        ucDNSServerAddress ucMACAddress) \<rparr>"
  have "endpoint_list (endpoints ?s1) (pxNetworkEndPoints ?s1) xs"
    using l x by (simp add: endpoint_list_update_outside)
  from FreeRTOS_AddEndPoint_appends [OF this x i]
  obtain s' where "FreeRTOS_AddEndPoint ?s1 pxIf x = Some (Inr (x, s'))"
    and "endpoint_list (endpoints s') (pxNetworkEndPoints s') (xs @ [x])"
    by blast
  then show ?thesis
    using g x by (simp add: FreeRTOS_FillEndPoint_def Let_def)
qed

subsection \<open>Subnet lookup\<close>

text \<open>
  Claim C7. On a well-formed end-point list, for every interface filter and every
  queried address, \<open>FreeRTOS_InterfaceEndPointOnNetMask\<close> returns. A result other than
  \<open>NULL\<close> is a registered IPv4 end-point that passes the interface filter and satisfies
  \<open>(addr & netmask) == (address & netmask)\<close>; the result is \<open>NULL\<close> if and only if no
  registered IPv4 end-point that passes the filter satisfies the equation.
\<close>

theorem InterfaceEndPointOnNetMask_result:
  assumes l: "endpoint_list (endpoints s) (pxNetworkEndPoints s) xs"
  shows "\<exists>r. FreeRTOS_InterfaceEndPointOnNetMask cfg s pxIf ulIP ulWhere = Some r \<and>
           (r \<noteq> NULL \<longrightarrow> r \<in> set xs \<and> bound_to s pxIf r \<and> is_IPv4_endpoint cfg s r \<and>
                on_netmask s ulIP r) \<and>
           ((r = NULL) =
              (\<not> (\<exists>q \<in> set xs. bound_to s pxIf q \<and> is_IPv4_endpoint cfg s q \<and>
                     on_netmask s ulIP q)))"
proof -
  let ?P = "\<lambda>q. bound_to s pxIf q \<and> is_IPv4_endpoint cfg s q \<and> on_netmask s ulIP q"
  let ?T = "\<lambda>e. (pxIf = NULL \<or> pxNetworkInterface e = pxIf) \<and>
             (if ipconfigUSE_IPv6 cfg then \<not> bIPv6 e else True) \<and>
             (ulIP AND ulNetMask (ipv4_settings e)) =
               (ulIPAddress (ipv4_settings e) AND ulNetMask (ipv4_settings e))"
  have "(\<lambda>q. ?T (endpoints s q)) = ?P"
    by (auto simp add: fun_eq_iff bound_to_def is_IPv4_endpoint_def on_netmask_def)
  then have res: "FreeRTOS_InterfaceEndPointOnNetMask cfg s pxIf ulIP ulWhere = Some (first_where ?P xs)"
    unfolding FreeRTOS_InterfaceEndPointOnNetMask_def
    using endpoint_scan_list [OF l, of ?T] by simp
  have found: "first_where ?P xs \<noteq> NULL \<longrightarrow> first_where ?P xs \<in> set xs \<and> ?P (first_where ?P xs)"
    using first_where_found [of ?P xs] by blast
  have none: "(first_where ?P xs = NULL) = (\<not> (\<exists>q \<in> set xs. ?P q))"
    using first_where_NULL_iff [OF endpoint_list_no_NULL [OF l], of ?P] by blast
  show ?thesis
    by (rule exI [of _ "first_where ?P xs"]) (use res found none in simp)
qed

text \<open>
  At the two end-points 10.0.0.5/24 and 192.168.1.5/24: the address 192.168.1.9 is
  found on the second end-point, 8.8.8.8 on none.
\<close>

theorem InterfaceEndPointOnNetMask_result_witness:
  "endpoint_list (endpoints state_two) (pxNetworkEndPoints state_two) [1, 2] \<and>
   FreeRTOS_InterfaceEndPointOnNetMask example_config state_two 1 0x0901A8C0 0 = Some 2 \<and>
   on_netmask state_two 0x0901A8C0 2 \<and> \<not> on_netmask state_two 0x0901A8C0 1 \<and>
   FreeRTOS_InterfaceEndPointOnNetMask example_config state_two 1 0x08080808 0 = Some NULL"
proof -
  have l: "endpoint_list (endpoints state_two) (pxNetworkEndPoints state_two) [1, 2]"
    by (simp add: state_two_def example_endpoint_def)
  have ev: "on_netmask state_two 0x0901A8C0 2" "\<not> on_netmask state_two 0x0901A8C0 1"
    "\<not> on_netmask state_two 0x08080808 1" "\<not> on_netmask state_two 0x08080808 2"
    by (simp_all add: on_netmask_def state_two_def example_endpoint_def)
  have bd: "bound_to state_two 1 1" "bound_to state_two 1 2"
    by (simp_all add: bound_to_def state_two_def example_endpoint_def)
  have v4: "is_IPv4_endpoint example_config state_two 2"
    by (simp add: is_IPv4_endpoint_def state_two_def example_endpoint_def)
  from InterfaceEndPointOnNetMask_result [OF l, of example_config 1 "0x0901A8C0" 0] ev bd v4
  have a: "FreeRTOS_InterfaceEndPointOnNetMask example_config state_two 1 0x0901A8C0 0 = Some 2"
    by auto
  from InterfaceEndPointOnNetMask_result [OF l, of example_config 1 "0x08080808" 0] ev
  have b: "FreeRTOS_InterfaceEndPointOnNetMask example_config state_two 1 0x08080808 0 = Some NULL"
    by auto
  show ?thesis using l a b ev by blast
qed

text \<open>
  Claim C9. On a well-formed end-point list, for every queried IPv6 address,
  \<open>FreeRTOS_FindEndPointOnNetMask_IPv6\<close> returns the first IPv6 end-point in the order
  of registration, whatever the address, and \<open>NULL\<close> exactly when no IPv6 end-point
  is registered.
\<close>

theorem FindEndPointOnNetMask_IPv6_first:
  assumes l: "endpoint_list (endpoints s) (pxNetworkEndPoints s) xs"
  shows "FreeRTOS_FindEndPointOnNetMask_IPv6 s pxIPv6Address =
           Some (first_where (\<lambda>q. bIPv6 (endpoints s q)) xs) \<and>
         ((first_where (\<lambda>q. bIPv6 (endpoints s q)) xs = NULL) =
            (\<not> (\<exists>q \<in> set xs. bIPv6 (endpoints s q))))"
proof -
  have "FreeRTOS_FindEndPointOnNetMask_IPv6 s pxIPv6Address =
      Some (first_where (\<lambda>q. bIPv6 (endpoints s q)) xs)"
    unfolding FreeRTOS_FindEndPointOnNetMask_IPv6_def prvFindFirstAddress_IPv6_def
    by (rule endpoint_scan_list [OF l])
  moreover have "(first_where (\<lambda>q. bIPv6 (endpoints s q)) xs = NULL) =
      (\<not> (\<exists>q \<in> set xs. bIPv6 (endpoints s q)))"
    using first_where_NULL_iff [OF endpoint_list_no_NULL [OF l], of "\<lambda>q. bIPv6 (endpoints s q)"]
    by blast
  ultimately show ?thesis by blast
qed

text \<open>
  With one IPv4 end-point followed by two IPv6 end-points, two different addresses both
  give the first IPv6 end-point.
\<close>

theorem FindEndPointOnNetMask_IPv6_first_witness:
  "endpoint_list (endpoints state_v6) (pxNetworkEndPoints state_v6) [1, 2, 3] \<and>
   FreeRTOS_FindEndPointOnNetMask_IPv6 state_v6 (replicate 16 0xff) = Some 2 \<and>
   FreeRTOS_FindEndPointOnNetMask_IPv6 state_v6 (replicate 16 0) = Some 2"
proof -
  have l: "endpoint_list (endpoints state_v6) (pxNetworkEndPoints state_v6) [1, 2, 3]"
    by (simp add: state_v6_def example_endpoint_def)
  have f: "first_where (\<lambda>q. bIPv6 (endpoints state_v6 q)) [1, 2, 3] = 2"
    by (simp add: state_v6_def example_endpoint_def zero_NetworkEndPoint_def)
  show ?thesis
    using l f FindEndPointOnNetMask_IPv6_first [OF l, of "replicate 16 0xff"]
      FindEndPointOnNetMask_IPv6_first [OF l, of "replicate 16 0"]
    by simp
qed

subsection \<open>Configuring an end-point\<close>

text \<open>
  The loop of \<open>FreeRTOS_AddEndPoint\<close> writes the \<open>pxNext\<close> field of the last
  end-point of the list only, never a field of the end-point that is being added.
\<close>

lemma AddEndPoint_loop_keeps:
  assumes "AddEndPoint_loop eps pxEP it = Some eps'"
  shows "eps' pxEP = eps pxEP"
proof (rule AddEndPoint_loop.raw_induct
         [where P = "\<lambda>eps pxEP it eps'. eps' pxEP = eps pxEP", OF _ assms])
  fix loop :: "(ep_ptr \<Rightarrow> NetworkEndPoint) \<Rightarrow> ep_ptr \<Rightarrow> ep_ptr \<Rightarrow> (ep_ptr \<Rightarrow> NetworkEndPoint) option"
  fix eps pxEP pxIterator epsa
  assume ih: "\<And>eps pxEP it y. loop eps pxEP it = Some y \<Longrightarrow> y pxEP = eps pxEP"
    and step: "(if pxIterator = pxEP then Some eps
      else if pxNext (eps pxIterator) = NULL
           then Some (eps(pxIterator := eps pxIterator\<lparr>pxNext := pxEP\<rparr>))
           else loop eps pxEP (pxNext (eps pxIterator))) = Some epsa"
  show "epsa pxEP = eps pxEP"
    using step ih by (auto split: if_splits)
qed

lemma FreeRTOS_AddEndPoint_object:
  assumes "FreeRTOS_AddEndPoint s pxIf pxEP = Some (Inr (r, s'))"
  shows "endpoints s' pxEP = (endpoints s pxEP) \<lparr> pxNetworkInterface := pxIf, pxNext := NULL \<rparr>"
  using assms
  by (auto simp add: FreeRTOS_AddEndPoint_def Let_def
      split: if_splits option.splits dest!: AddEndPoint_loop_keeps)

lemma FreeRTOS_AddEndPoint_single_object:
  assumes "FreeRTOS_AddEndPoint_single s pxIf pxEP = Inr (r, s')"
  shows "endpoints s' pxEP = (endpoints s pxEP) \<lparr> pxNetworkInterface := pxIf, pxNext := NULL \<rparr>"
  using assms
  by (auto simp add: FreeRTOS_AddEndPoint_single_def Let_def split: if_splits)

lemma FreeRTOS_FillEndPoint_object:
  assumes "FreeRTOS_FillEndPoint cfg s pxIf pxEP ip nm gw dns mac = Some (Inr s')"
  shows "endpoints s' pxEP =
     (FillEndPoint_object cfg ip nm gw dns mac) \<lparr> pxNetworkInterface := pxIf, pxNext := NULL \<rparr>"
proof (cases "ipconfigCOMPATIBLE_WITH_SINGLE cfg")
  case True
  with assms show ?thesis
    by (auto simp add: FreeRTOS_FillEndPoint_def Let_def
        split: if_splits sum.splits dest!: FreeRTOS_AddEndPoint_single_object)
next
  case False
  with assms show ?thesis
    by (auto simp add: FreeRTOS_FillEndPoint_def Let_def
        split: if_splits sum.splits option.splits dest!: FreeRTOS_AddEndPoint_object)
qed


lemma replicate_2_update_0: "(replicate 2 (0::uint32_t)) [0 := v] = [v, 0]"
  by (simp add: numeral_2_eq_2)

lemma FillEndPoint_object_example:
  "FillEndPoint_object example_config
     (10, 0, 0, 5) (255, 255, 255, 0) (10, 0, 0, 1) (8, 8, 8, 8) [0, 1, 2, 3, 4, 5] =
   endpoint_filled"
  by (simp add: FillEndPoint_object_def inet_addr_quick4_def endpoint_filled_def
      example_config_def zero_NetworkEndPoint_def zero_IPV4Parameters_def
      zero_IPV6Parameters_def ipMAC_ADDRESS_LENGTH_BYTES_def Let_def replicate_2_update_0)

lemma FillEndPoint_example:
  "FreeRTOS_FillEndPoint example_config state_interface 1 1
     (10, 0, 0, 5) (255, 255, 255, 0) (10, 0, 0, 1) (8, 8, 8, 8) [0, 1, 2, 3, 4, 5]
   = Some (Inr state_filled)"
proof -
  have c: "\<not> ipconfigCOMPATIBLE_WITH_SINGLE example_config"
    by (simp add: example_config_def)
  show ?thesis
    by (simp add: FreeRTOS_FillEndPoint_def FillEndPoint_object_example c
      FreeRTOS_AddEndPoint_def state_interface_def empty_state_def state_filled_def Let_def)
qed

text \<open>
  Claim C6. When \<open>FreeRTOS_FillEndPoint\<close> has returned, in either build and for any
  input values, the default settings of the end-point equal its current settings in
  the netmask, the gateway, the DNS addresses and the broadcast address; the current
  address is zero; and the default address is the supplied static address.
\<close>

theorem FillEndPoint_defaults_equal_settings:
  assumes "FreeRTOS_FillEndPoint cfg s pxIf pxEP ucIPAddress ucNetMask ucGatewayAddress
             ucDNSServerAddress ucMACAddress = Some (Inr s')"
  shows "ulNetMask (ipv4_defaults (endpoints s' pxEP)) =
           ulNetMask (ipv4_settings (endpoints s' pxEP)) \<and>
         ulGatewayAddress (ipv4_defaults (endpoints s' pxEP)) =
           ulGatewayAddress (ipv4_settings (endpoints s' pxEP)) \<and>
         ulDNSServerAddresses (ipv4_defaults (endpoints s' pxEP)) =
           ulDNSServerAddresses (ipv4_settings (endpoints s' pxEP)) \<and>
         ulBroadcastAddress (ipv4_defaults (endpoints s' pxEP)) =
           ulBroadcastAddress (ipv4_settings (endpoints s' pxEP)) \<and>
         ulIPAddress (ipv4_settings (endpoints s' pxEP)) = 0 \<and>
         ulIPAddress (ipv4_defaults (endpoints s' pxEP)) = inet_addr_quick4 cfg ucIPAddress"
  by (simp add: FreeRTOS_FillEndPoint_object [OF assms] FillEndPoint_object_def Let_def
      zero_NetworkEndPoint_def zero_IPV4Parameters_def)

text \<open>Filling 10.0.0.5/24 into end-point 1 of interface 1.\<close>

theorem FillEndPoint_defaults_equal_settings_witness:
  "FreeRTOS_FillEndPoint example_config state_interface 1 1
     (10, 0, 0, 5) (255, 255, 255, 0) (10, 0, 0, 1) (8, 8, 8, 8) [0, 1, 2, 3, 4, 5]
     = Some (Inr state_filled) \<and>
   ulNetMask (ipv4_defaults (endpoints state_filled 1)) =
     ulNetMask (ipv4_settings (endpoints state_filled 1)) \<and>
   ulIPAddress (ipv4_settings (endpoints state_filled 1)) = 0 \<and>
   ulIPAddress (ipv4_defaults (endpoints state_filled 1)) =
     inet_addr_quick4 example_config (10, 0, 0, 5)"
  using FillEndPoint_defaults_equal_settings [OF FillEndPoint_example] FillEndPoint_example
  by simp

text \<open>
  Claim C5 states \<open>broadcast == address | ~netmask\<close> for the current and for the
  default settings of every filled end-point. For the current settings this fails right
  after the call: filling 10.0.0.5/24 leaves the current address at zero and the
  current broadcast address at 10.0.0.255, while \<open>0 | ~netmask\<close> is 0.0.0.255.
\<close>

theorem FillEndPoint_current_broadcast_counterexample:
  "FreeRTOS_FillEndPoint example_config state_interface 1 1
     (10, 0, 0, 5) (255, 255, 255, 0) (10, 0, 0, 1) (8, 8, 8, 8) [0, 1, 2, 3, 4, 5]
     = Some (Inr state_filled) \<and>
   ulBroadcastAddress (ipv4_settings (endpoints state_filled 1)) = 0xFF00000A \<and>
   (ulIPAddress (ipv4_settings (endpoints state_filled 1))
      OR NOT (ulNetMask (ipv4_settings (endpoints state_filled 1)))) = 0xFF000000 \<and>
   ulBroadcastAddress (ipv4_settings (endpoints state_filled 1)) \<noteq>
     (ulIPAddress (ipv4_settings (endpoints state_filled 1))
        OR NOT (ulNetMask (ipv4_settings (endpoints state_filled 1))))"
  using FillEndPoint_example by (simp add: state_filled_def endpoint_filled_def)

text \<open>
  No step changes the address settings of an end-point other than the one a
  \<open>FreeRTOS_FillEndPoint\<close> step fills: \<open>FreeRTOS_AddEndPoint\<close> writes \<open>pxNext\<close> and
  \<open>pxNetworkInterface\<close> only, and \<open>FreeRTOS_AddNetworkInterface\<close> writes no end-point.
\<close>

lemma AddEndPoint_loop_settings:
  assumes "AddEndPoint_loop eps pxEP it = Some eps'"
  shows "ipv4_settings (eps' q) = ipv4_settings (eps q) \<and>
         ipv4_defaults (eps' q) = ipv4_defaults (eps q)"
proof (rule AddEndPoint_loop.raw_induct
         [where P = "\<lambda>eps pxEP it eps'. ipv4_settings (eps' q) = ipv4_settings (eps q) \<and>
            ipv4_defaults (eps' q) = ipv4_defaults (eps q)", OF _ assms])
  fix loop :: "(ep_ptr \<Rightarrow> NetworkEndPoint) \<Rightarrow> ep_ptr \<Rightarrow> ep_ptr \<Rightarrow> (ep_ptr \<Rightarrow> NetworkEndPoint) option"
  fix eps pxEP pxIterator epsa
  assume ih: "\<And>eps pxEP it y. loop eps pxEP it = Some y \<Longrightarrow>
      ipv4_settings (y q) = ipv4_settings (eps q) \<and> ipv4_defaults (y q) = ipv4_defaults (eps q)"
    and step: "(if pxIterator = pxEP then Some eps
      else if pxNext (eps pxIterator) = NULL
           then Some (eps(pxIterator := eps pxIterator\<lparr>pxNext := pxEP\<rparr>))
           else loop eps pxEP (pxNext (eps pxIterator))) = Some epsa"
  show "ipv4_settings (epsa q) = ipv4_settings (eps q) \<and>
        ipv4_defaults (epsa q) = ipv4_defaults (eps q)"
    using step ih by (auto split: if_splits)
qed

lemma FreeRTOS_AddEndPoint_settings:
  assumes "FreeRTOS_AddEndPoint s pxIf pxEP = Some (Inr (r, s'))"
  shows "ipv4_settings (endpoints s' q) = ipv4_settings (endpoints s q) \<and>
         ipv4_defaults (endpoints s' q) = ipv4_defaults (endpoints s q)"
  using assms
  by (auto simp add: FreeRTOS_AddEndPoint_def Let_def
      split: if_splits option.splits dest!: AddEndPoint_loop_settings [where q = q])

lemma FreeRTOS_AddEndPoint_single_settings:
  assumes "FreeRTOS_AddEndPoint_single s pxIf pxEP = Inr (r, s')"
  shows "ipv4_settings (endpoints s' q) = ipv4_settings (endpoints s q) \<and>
         ipv4_defaults (endpoints s' q) = ipv4_defaults (endpoints s q)"
  using assms
  by (auto simp add: FreeRTOS_AddEndPoint_single_def Let_def split: if_splits)

lemma FillEndPoint_object_broadcast_inv:
  "broadcast_inv (FillEndPoint_object cfg ip nm gw dns mac)"
  by (simp add: broadcast_inv_def FillEndPoint_object_def Let_def
      zero_NetworkEndPoint_def zero_IPV4Parameters_def)

lemma broadcast_inv_cong:
  "ipv4_settings e' = ipv4_settings e \<and> ipv4_defaults e' = ipv4_defaults e \<Longrightarrow>
   broadcast_inv e' = broadcast_inv e"
  by (simp add: broadcast_inv_def)

lemma FreeRTOS_FillEndPoint_broadcast_inv:
  assumes f: "FreeRTOS_FillEndPoint cfg s pxIf pxEP ip nm gw dns mac = Some (Inr s')"
  shows "broadcast_inv (endpoints s' pxEP)"
    and "broadcast_inv (endpoints s q) \<Longrightarrow> broadcast_inv (endpoints s' q)"
proof -
  let ?s1 = "s \<lparr> endpoints := (endpoints s) (pxEP :=
      FillEndPoint_object cfg ip nm gw dns mac) \<rparr>"
  have same: "ipv4_settings (endpoints s' q) = ipv4_settings (endpoints ?s1 q) \<and>
      ipv4_defaults (endpoints s' q) = ipv4_defaults (endpoints ?s1 q)" for q
  proof (cases "ipconfigCOMPATIBLE_WITH_SINGLE cfg")
    case True
    with f obtain r where "FreeRTOS_AddEndPoint_single ?s1 pxIf pxEP = Inr (r, s')"
      by (auto simp add: FreeRTOS_FillEndPoint_def Let_def split: if_splits sum.splits)
    then show ?thesis by (rule FreeRTOS_AddEndPoint_single_settings)
  next
    case False
    with f obtain r where "FreeRTOS_AddEndPoint ?s1 pxIf pxEP = Some (Inr (r, s'))"
      by (auto simp add: FreeRTOS_FillEndPoint_def Let_def
          split: if_splits sum.splits option.splits)
    then show ?thesis by (rule FreeRTOS_AddEndPoint_settings)
  qed
  have "broadcast_inv (endpoints ?s1 pxEP)"
    by (simp add: FillEndPoint_object_broadcast_inv)
  then show "broadcast_inv (endpoints s' pxEP)"
    using broadcast_inv_cong [OF same [of pxEP]] by simp
  assume "broadcast_inv (endpoints s q)"
  then have "broadcast_inv (endpoints ?s1 q)"
    by (simp add: FillEndPoint_object_broadcast_inv)
  then show "broadcast_inv (endpoints s' q)"
    using broadcast_inv_cong [OF same [of q]] by simp
qed

lemma FreeRTOS_AddNetworkInterface_endpoints:
  "FreeRTOS_AddNetworkInterface s pxInterface = Some (Inr (r, s')) \<Longrightarrow>
   endpoints s' = endpoints s"
  by (auto simp add: FreeRTOS_AddNetworkInterface_def Let_def split: if_splits option.splits)

lemma FreeRTOS_AddNetworkInterface_single_endpoints:
  "FreeRTOS_AddNetworkInterface_single s pxInterface = Inr (r, s') \<Longrightarrow>
   endpoints s' = endpoints s"
  by (auto simp add: FreeRTOS_AddNetworkInterface_single_def split: if_splits)

lemma routing_step_broadcast_inv:
  "routing_step cfg s s' \<Longrightarrow> broadcast_inv (endpoints s q) \<Longrightarrow>
   broadcast_inv (endpoints s' q)"
proof (induction rule: routing_step.induct)
  case (step_AddNetworkInterface s pxInterface r s')
  then show ?case by (simp add: FreeRTOS_AddNetworkInterface_endpoints)
next
  case (step_AddNetworkInterface_single s pxInterface r s')
  then show ?case by (simp add: FreeRTOS_AddNetworkInterface_single_endpoints)
next
  case (step_FillEndPoint s pxInterface pxEP ucIPAddress ucNetMask ucGatewayAddress
      ucDNSServerAddress ucMACAddress s')
  then show ?case by (rule FreeRTOS_FillEndPoint_broadcast_inv(2))
qed

lemma routing_steps_broadcast_inv:
  "(routing_step cfg)\<^sup>*\<^sup>* s s' \<Longrightarrow> broadcast_inv (endpoints s q) \<Longrightarrow>
   broadcast_inv (endpoints s' q)"
  by (induction rule: rtranclp_induct) (auto intro: routing_step_broadcast_inv)

lemma FillEndPoint_object_example_2:
  "FillEndPoint_object example_config
     (192, 168, 1, 5) (255, 255, 255, 0) (192, 168, 1, 1) (8, 8, 8, 8) [0, 1, 2, 3, 4, 6] =
   endpoint_filled_2"
  by (simp add: FillEndPoint_object_def inet_addr_quick4_def endpoint_filled_2_def
      example_config_def zero_NetworkEndPoint_def zero_IPV4Parameters_def
      zero_IPV6Parameters_def ipMAC_ADDRESS_LENGTH_BYTES_def Let_def replicate_2_update_0)

lemma FillEndPoint_example_2:
  "FreeRTOS_FillEndPoint example_config state_filled 1 2
     (192, 168, 1, 5) (255, 255, 255, 0) (192, 168, 1, 1) (8, 8, 8, 8) [0, 1, 2, 3, 4, 6]
   = Some (Inr state_filled_two)"
proof -
  have c: "\<not> ipconfigCOMPATIBLE_WITH_SINGLE example_config"
    by (simp add: example_config_def)
  show ?thesis
    by (simp add: FreeRTOS_FillEndPoint_def FillEndPoint_object_example_2 c
      FreeRTOS_AddEndPoint_def AddEndPoint_loop.simps state_filled_def state_filled_two_def
      Let_def fun_eq_iff)
qed

text \<open>
  Claim C5, amended. For an end-point configured by \<open>FreeRTOS_FillEndPoint\<close>, at every
  later point in execution (any number of further calls of \<open>FreeRTOS_AddNetworkInterface\<close>
  and \<open>FreeRTOS_FillEndPoint\<close>, on this or on other objects): the default settings
  satisfy \<open>broadcast == address | ~netmask\<close>, and the current settings satisfy
  \<open>broadcast == (default address) | ~netmask\<close>. Right after the call the default
  address is the supplied static address and the current address is zero.
\<close>

theorem FillEndPoint_broadcast:
  assumes fill: "FreeRTOS_FillEndPoint cfg s pxIf pxEP ucIPAddress ucNetMask ucGatewayAddress
             ucDNSServerAddress ucMACAddress = Some (Inr s1)"
    and later: "(routing_step cfg)\<^sup>*\<^sup>* s1 s2"
  shows "ulBroadcastAddress (ipv4_defaults (endpoints s2 pxEP)) =
           (ulIPAddress (ipv4_defaults (endpoints s2 pxEP))
              OR NOT (ulNetMask (ipv4_defaults (endpoints s2 pxEP)))) \<and>
         ulBroadcastAddress (ipv4_settings (endpoints s2 pxEP)) =
           (ulIPAddress (ipv4_defaults (endpoints s2 pxEP))
              OR NOT (ulNetMask (ipv4_settings (endpoints s2 pxEP)))) \<and>
         ulIPAddress (ipv4_defaults (endpoints s1 pxEP)) = inet_addr_quick4 cfg ucIPAddress \<and>
         ulIPAddress (ipv4_settings (endpoints s1 pxEP)) = 0"
proof -
  have "broadcast_inv (endpoints s1 pxEP)"
    by (rule FreeRTOS_FillEndPoint_broadcast_inv(1) [OF fill])
  with later have "broadcast_inv (endpoints s2 pxEP)"
    by (rule routing_steps_broadcast_inv)
  moreover have "ulIPAddress (ipv4_defaults (endpoints s1 pxEP)) = inet_addr_quick4 cfg ucIPAddress \<and>
      ulIPAddress (ipv4_settings (endpoints s1 pxEP)) = 0"
    by (simp add: FreeRTOS_FillEndPoint_object [OF fill] FillEndPoint_object_def Let_def
        zero_NetworkEndPoint_def zero_IPV4Parameters_def)
  ultimately show ?thesis by (simp add: broadcast_inv_def)
qed

text \<open>
  Filling 10.0.0.5/24 into end-point 1, then 192.168.1.5/24 into end-point 2: both
  broadcast addresses of end-point 1 are still 10.0.0.255.
\<close>

theorem FillEndPoint_broadcast_witness:
  "FreeRTOS_FillEndPoint example_config state_interface 1 1
     (10, 0, 0, 5) (255, 255, 255, 0) (10, 0, 0, 1) (8, 8, 8, 8) [0, 1, 2, 3, 4, 5]
     = Some (Inr state_filled) \<and>
   (routing_step example_config)\<^sup>*\<^sup>* state_filled state_filled_two \<and>
   ulBroadcastAddress (ipv4_defaults (endpoints state_filled_two 1)) =
     (ulIPAddress (ipv4_defaults (endpoints state_filled_two 1))
        OR NOT (ulNetMask (ipv4_defaults (endpoints state_filled_two 1)))) \<and>
   ulBroadcastAddress (ipv4_defaults (endpoints state_filled_two 1)) = 0xFF00000A \<and>
   ulBroadcastAddress (ipv4_settings (endpoints state_filled_two 1)) = 0xFF00000A"
proof -
  have later: "(routing_step example_config)\<^sup>*\<^sup>* state_filled state_filled_two"
    by (rule r_into_rtranclp) (rule step_FillEndPoint [OF FillEndPoint_example_2])
  show ?thesis
    using FillEndPoint_broadcast [OF FillEndPoint_example later] FillEndPoint_example later
    by (simp add: state_filled_two_def endpoint_filled_def)
qed

subsection \<open>Matching an IPv4 frame\<close>

lemma state_two_list:
  "endpoint_list (endpoints state_two) (pxNetworkEndPoints state_two) [1, 2]"
  by (simp add: state_two_def example_endpoint_def)

lemma state_interface_list:
  "endpoint_list (endpoints state_interface) (pxNetworkEndPoints state_interface) []"
  by (simp add: state_interface_def empty_state_def)

lemma example_IPv4_frame_is_IPv4: "is_IPv4_frame example_config (example_IPv4_frame src dst)"
  by (simp add: is_IPv4_frame_def example_config_def example_IPv4_frame_def)

text \<open>The address 255.255.255.255 has an all-ones low-order byte in both byte orders.\<close>

lemma xIPBroadcast_of_all_ones: "xIPBroadcast_of cfg (NOT 0)"
proof -
  have "NOT (0::uint32_t) = 0xFFFFFFFF" by simp
  then show ?thesis
    by (simp add: xIPBroadcast_of_def FreeRTOS_ntohl_def FreeRTOS_htonl_def
        mask_eq_exp_minus_1)
qed

text \<open>
  Claim C3 states that a frame to the limited broadcast address is given to the
  first-registered end-point of the receiving interface, for any source address. With
  the end-points 10.0.0.5/24 and 192.168.1.5/24 on interface 1, a frame from
  192.168.1.7 to 255.255.255.255 is given to the second end-point, whose subnet holds
  the source, while the first end-point of the interface is end-point 1.
\<close>

theorem MatchingEndpoint_broadcast_not_first_counterexample:
  "xIPBroadcast_of example_config (ulDestinationIPAddress (example_IPv4_frame 0x0701A8C0 0xFFFFFFFF)) \<and>
   FreeRTOS_MatchingEndpoint example_config state_two 1
     (example_IPv4_frame 0x0701A8C0 0xFFFFFFFF) = Some 2 \<and>
   FreeRTOS_FirstEndPoint state_two 1 = Some 1"
  by (simp add: FreeRTOS_MatchingEndpoint_def MatchingEndpoint_IPv4_def example_config_def
      state_two_def example_IPv4_frame_def FreeRTOS_FirstEndPoint_def endpoint_scan.simps
      MatchingEndpoint_IPv4_loop.simps example_endpoint_def xIPBroadcast_of_def
      ulMatchAddress_of_def xDone_of_def FreeRTOS_NextEndPoint_def FreeRTOS_ntohl_def
      FreeRTOS_htonl_def zero_NetworkEndPoint_def)

text \<open>
  Claim C3, amended. On a well-formed end-point list, for an IPv4 frame whose
  destination has an all-ones low-order byte (255.255.255.255 among them) and for any
  source address, \<open>FreeRTOS_MatchingEndpoint\<close> returns "no match" exactly when the
  receiving interface has no end-point. Otherwise it returns an end-point of that
  interface: the first one that the loop accepts (the subnet rule applied to the match
  address comes into play here), and the first-registered end-point of the interface
  when the loop accepts none.
\<close>

theorem MatchingEndpoint_broadcast:
  assumes l: "endpoint_list (endpoints s) (pxNetworkEndPoints s) xs"
    and f: "is_IPv4_frame cfg pxPacket"
    and b: "xIPBroadcast_of cfg (ulDestinationIPAddress pxPacket)"
  shows "\<exists>r. FreeRTOS_MatchingEndpoint cfg s pxIf pxPacket = Some r \<and>
           ((r = NULL) = (\<forall>q \<in> set xs. \<not> bound_to s pxIf q)) \<and>
           (r \<noteq> NULL \<longrightarrow> r \<in> set xs \<and> bound_to s pxIf r) \<and>
           r = (if first_where (\<lambda>q. bound_to s pxIf q \<and>
                      accepts cfg s True
                        (ulMatchAddress_of (ulSourceIPAddress pxPacket)
                           (ulDestinationIPAddress pxPacket))
                        (ulDestinationIPAddress pxPacket) q) xs = NULL
                then first_where (bound_to s pxIf) xs
                else first_where (\<lambda>q. bound_to s pxIf q \<and>
                      accepts cfg s True
                        (ulMatchAddress_of (ulSourceIPAddress pxPacket)
                           (ulDestinationIPAddress pxPacket))
                        (ulDestinationIPAddress pxPacket) q) xs)"
proof -
  let ?A = "\<lambda>q. bound_to s pxIf q \<and>
                accepts cfg s True
                  (ulMatchAddress_of (ulSourceIPAddress pxPacket)
                     (ulDestinationIPAddress pxPacket))
                  (ulDestinationIPAddress pxPacket) q"
  let ?r = "if first_where ?A xs = NULL then first_where (bound_to s pxIf) xs
            else first_where ?A xs"
  have n0: "NULL \<notin> set xs" by (rule endpoint_list_no_NULL [OF l])
  have res: "FreeRTOS_MatchingEndpoint cfg s pxIf pxPacket = Some ?r"
    using MatchingEndpoint_IPv4_list [OF l refl refl refl, where cfg = cfg
        and pxPacket = pxPacket and pxIf = pxIf] b
    by (simp add: FreeRTOS_MatchingEndpoint_IPv4_frame [OF f])
  have a_bound: "first_where ?A xs \<noteq> NULL \<Longrightarrow>
      first_where ?A xs \<in> set xs \<and> bound_to s pxIf (first_where ?A xs)"
    using first_where_found [of ?A xs] by blast
  have f_bound: "first_where (bound_to s pxIf) xs \<noteq> NULL \<Longrightarrow>
      first_where (bound_to s pxIf) xs \<in> set xs \<and>
      bound_to s pxIf (first_where (bound_to s pxIf) xs)"
    using first_where_found [of "bound_to s pxIf" xs] by blast
  have f_none: "(first_where (bound_to s pxIf) xs = NULL) = (\<forall>q \<in> set xs. \<not> bound_to s pxIf q)"
    by (rule first_where_NULL_iff [OF n0])
  have mem: "?r \<noteq> NULL \<longrightarrow> ?r \<in> set xs \<and> bound_to s pxIf ?r"
    using a_bound f_bound by (cases "first_where ?A xs = NULL") simp_all
  have none: "(?r = NULL) = (\<forall>q \<in> set xs. \<not> bound_to s pxIf q)"
  proof (cases "first_where ?A xs = NULL")
    case True
    then show ?thesis using f_none by simp
  next
    case False
    then show ?thesis using a_bound by auto
  qed
  show ?thesis
    by (rule exI [of _ ?r]) (use res mem none in blast)
qed


text \<open>
  The frame from 192.168.1.7 to 255.255.255.255, on the interface with two end-points
  and on an interface without end-points.
\<close>

theorem MatchingEndpoint_broadcast_witness:
  "endpoint_list (endpoints state_two) (pxNetworkEndPoints state_two) [1, 2] \<and>
   endpoint_list (endpoints state_interface) (pxNetworkEndPoints state_interface) [] \<and>
   is_IPv4_frame example_config (example_IPv4_frame 0x0701A8C0 0xFFFFFFFF) \<and>
   xIPBroadcast_of example_config
     (ulDestinationIPAddress (example_IPv4_frame 0x0701A8C0 0xFFFFFFFF)) \<and>
   FreeRTOS_MatchingEndpoint example_config state_two 1
     (example_IPv4_frame 0x0701A8C0 0xFFFFFFFF) \<noteq> Some NULL \<and>
   FreeRTOS_MatchingEndpoint example_config state_interface 1
     (example_IPv4_frame 0x0701A8C0 0xFFFFFFFF) = Some NULL"
proof -
  let ?pkt = "example_IPv4_frame 0x0701A8C0 0xFFFFFFFF"
  have f: "is_IPv4_frame example_config ?pkt"
    by (rule example_IPv4_frame_is_IPv4)
  have b: "xIPBroadcast_of example_config (ulDestinationIPAddress ?pkt)"
    by (simp add: example_IPv4_frame_def xIPBroadcast_of_def FreeRTOS_ntohl_def
        FreeRTOS_htonl_def example_config_def)
  have bd: "bound_to state_two 1 1"
    by (simp add: bound_to_def state_two_def example_endpoint_def)
  from MatchingEndpoint_broadcast [OF state_two_list f b, of 1] bd
  have two: "FreeRTOS_MatchingEndpoint example_config state_two 1 ?pkt \<noteq> Some NULL"
    by auto
  from MatchingEndpoint_broadcast [OF state_interface_list f b, of 1]
  have none: "FreeRTOS_MatchingEndpoint example_config state_interface 1 ?pkt = Some NULL"
    by auto
  show ?thesis
    using state_two_list state_interface_list f b two none by blast
qed

text \<open>
  Claim C4 states that for every destination with an all-ones low-order byte the subnet
  rule is applied to the source address. The source does so only for the destination
  255.255.255.255. A frame from 10.0.0.9 to 192.168.1.255 has an all-ones low-order
  byte, its match address is the destination, and end-point 1 = 10.0.0.5/24 is not
  accepted although the source lies in its subnet; the frame goes to end-point 2.
\<close>

theorem MatchingEndpoint_match_address_counterexample:
  "xIPBroadcast_of example_config
     (ulDestinationIPAddress (example_IPv4_frame 0x0900000A 0xFF01A8C0)) \<and>
   ulMatchAddress_of 0x0900000A 0xFF01A8C0 = 0xFF01A8C0 \<and>
   subnet_rule state_two 0x0900000A 1 \<and>
   xDone_of example_config True (ulMatchAddress_of 0x0900000A 0xFF01A8C0) 0xFF01A8C0
     (endpoints state_two 1) = False \<and>
   FreeRTOS_MatchingEndpoint example_config state_two 1
     (example_IPv4_frame 0x0900000A 0xFF01A8C0) = Some 2"
  by (simp add: FreeRTOS_MatchingEndpoint_def MatchingEndpoint_IPv4_def example_config_def
      state_two_def example_IPv4_frame_def FreeRTOS_FirstEndPoint_def endpoint_scan.simps
      MatchingEndpoint_IPv4_loop.simps example_endpoint_def xIPBroadcast_of_def
      ulMatchAddress_of_def xDone_of_def FreeRTOS_NextEndPoint_def FreeRTOS_ntohl_def
      FreeRTOS_htonl_def zero_NetworkEndPoint_def subnet_rule_def)

text \<open>
  Claim C4, amended. On a well-formed end-point list, for an IPv4 frame whose
  destination has an all-ones low-order byte, the loop stops at the first IPv4
  end-point of the receiving interface whose address equals the destination, or that
  passes the subnet rule, or when the destination is multicast; the subnet rule is
  \<open>( ( address ^ a ) & netmask ) == 0\<close> where \<open>a\<close> is the source address if the
  destination is 255.255.255.255 and the destination address otherwise.
\<close>

theorem MatchingEndpoint_match_address:
  assumes l: "endpoint_list (endpoints s) (pxNetworkEndPoints s) xs"
    and f: "is_IPv4_frame cfg pxPacket"
    and b: "xIPBroadcast_of cfg (ulDestinationIPAddress pxPacket)"
  shows "FreeRTOS_MatchingEndpoint cfg s pxIf pxPacket =
     Some (let a = (if ulDestinationIPAddress pxPacket = NOT 0
                    then ulSourceIPAddress pxPacket
                    else ulDestinationIPAddress pxPacket);
               r = first_where (\<lambda>q. bound_to s pxIf q \<and> is_IPv4_endpoint cfg s q \<and>
                     (ulIPAddress (ipv4_settings (endpoints s q)) =
                        ulDestinationIPAddress pxPacket \<or>
                      subnet_rule s a q \<or>
                      xIsIPv4Multicast cfg (ulDestinationIPAddress pxPacket))) xs
           in if r = NULL then first_where (bound_to s pxIf) xs else r)"
proof -
  let ?dst = "ulDestinationIPAddress pxPacket"
  let ?a = "if ?dst = NOT 0 then ulSourceIPAddress pxPacket else ?dst"
  have acc: "accepts cfg s True (ulMatchAddress_of (ulSourceIPAddress pxPacket) ?dst) ?dst q =
      (is_IPv4_endpoint cfg s q \<and>
       (ulIPAddress (ipv4_settings (endpoints s q)) = ?dst \<or> subnet_rule s ?a q \<or>
        xIsIPv4Multicast cfg ?dst))" for q
    by (simp add: accepts_def xDone_of_def ulMatchAddress_of_def subnet_rule_def)
  show ?thesis
    using MatchingEndpoint_IPv4_list [OF l refl refl refl, where cfg = cfg
        and pxPacket = pxPacket and pxIf = pxIf] b
    by (simp add: FreeRTOS_MatchingEndpoint_IPv4_frame [OF f] acc Let_def)
qed

text \<open>
  Both kinds of destination on the two end-points: from 192.168.1.7 to
  255.255.255.255, and from 10.0.0.9 to 192.168.1.255.
\<close>

theorem MatchingEndpoint_match_address_witness:
  "endpoint_list (endpoints state_two) (pxNetworkEndPoints state_two) [1, 2] \<and>
   is_IPv4_frame example_config (example_IPv4_frame 0x0701A8C0 0xFFFFFFFF) \<and>
   xIPBroadcast_of example_config
     (ulDestinationIPAddress (example_IPv4_frame 0x0701A8C0 0xFFFFFFFF)) \<and>
   xIPBroadcast_of example_config
     (ulDestinationIPAddress (example_IPv4_frame 0x0900000A 0xFF01A8C0)) \<and>
   FreeRTOS_MatchingEndpoint example_config state_two 1
     (example_IPv4_frame 0x0701A8C0 0xFFFFFFFF) = Some 2 \<and>
   FreeRTOS_MatchingEndpoint example_config state_two 1
     (example_IPv4_frame 0x0900000A 0xFF01A8C0) = Some 2"
proof -
  let ?p1 = "example_IPv4_frame 0x0701A8C0 0xFFFFFFFF"
  let ?p2 = "example_IPv4_frame 0x0900000A 0xFF01A8C0"
  have b1: "xIPBroadcast_of example_config (ulDestinationIPAddress ?p1)"
    and b2: "xIPBroadcast_of example_config (ulDestinationIPAddress ?p2)"
    by (simp_all add: example_IPv4_frame_def xIPBroadcast_of_def FreeRTOS_ntohl_def
        FreeRTOS_htonl_def example_config_def)
  have r1: "FreeRTOS_MatchingEndpoint example_config state_two 1 ?p1 = Some 2"
    using MatchingEndpoint_match_address
      [OF state_two_list example_IPv4_frame_is_IPv4 b1, of 1]
    by (simp add: example_IPv4_frame_def state_two_def example_endpoint_def bound_to_def
        is_IPv4_endpoint_def subnet_rule_def example_config_def zero_NetworkEndPoint_def)
  have r2: "FreeRTOS_MatchingEndpoint example_config state_two 1 ?p2 = Some 2"
    using MatchingEndpoint_match_address
      [OF state_two_list example_IPv4_frame_is_IPv4 b2, of 1]
    by (simp add: example_IPv4_frame_def state_two_def example_endpoint_def bound_to_def
        is_IPv4_endpoint_def subnet_rule_def example_config_def zero_NetworkEndPoint_def)
  show ?thesis
    using state_two_list example_IPv4_frame_is_IPv4 [of "0x0701A8C0" "0xFFFFFFFF"] b1 b2 r1 r2
    by blast
qed

text \<open>
  Claim C8 states that the matcher returns the very end-point whose current address is
  the destination, whatever other end-points the interface has. After two calls of
  \<open>FreeRTOS_FillEndPoint\<close> on interface 1 both end-points have the current address
  zero. A frame to 0.0.0.0 is neither broadcast nor multicast and its destination is the
  current address of end-point 2, but the loop stops at end-point 1.
\<close>

theorem MatchingEndpoint_exact_unicast_counterexample:
  "FreeRTOS_FillEndPoint example_config state_interface 1 1
     (10, 0, 0, 5) (255, 255, 255, 0) (10, 0, 0, 1) (8, 8, 8, 8) [0, 1, 2, 3, 4, 5]
     = Some (Inr state_filled) \<and>
   FreeRTOS_FillEndPoint example_config state_filled 1 2
     (192, 168, 1, 5) (255, 255, 255, 0) (192, 168, 1, 1) (8, 8, 8, 8) [0, 1, 2, 3, 4, 6]
     = Some (Inr state_filled_two) \<and>
   is_IPv4_frame example_config (example_IPv4_frame 0x0900000A 0) \<and>
   \<not> xIPBroadcast_of example_config (ulDestinationIPAddress (example_IPv4_frame 0x0900000A 0)) \<and>
   \<not> xIsIPv4Multicast example_config
       (ulDestinationIPAddress (example_IPv4_frame 0x0900000A 0)) \<and>
   bound_to state_filled_two 1 2 \<and>
   is_IPv4_endpoint example_config state_filled_two 2 \<and>
   ulIPAddress (ipv4_settings (endpoints state_filled_two 2)) =
     ulDestinationIPAddress (example_IPv4_frame 0x0900000A 0) \<and>
   FreeRTOS_MatchingEndpoint example_config state_filled_two 1
     (example_IPv4_frame 0x0900000A 0) = Some 1"
proof -
  have m: "FreeRTOS_MatchingEndpoint example_config state_filled_two 1
      (example_IPv4_frame 0x0900000A 0) = Some 1"
    by (simp add: FreeRTOS_MatchingEndpoint_def MatchingEndpoint_IPv4_def example_config_def
      state_filled_two_def endpoint_filled_def endpoint_filled_2_def
      example_IPv4_frame_def FreeRTOS_FirstEndPoint_def endpoint_scan.simps
      MatchingEndpoint_IPv4_loop.simps xIPBroadcast_of_def
      ulMatchAddress_of_def xDone_of_def FreeRTOS_NextEndPoint_def FreeRTOS_ntohl_def
      FreeRTOS_htonl_def zero_NetworkEndPoint_def)
  have h: "is_IPv4_frame example_config (example_IPv4_frame 0x0900000A 0)"
    "\<not> xIPBroadcast_of example_config (ulDestinationIPAddress (example_IPv4_frame 0x0900000A 0))"
    "\<not> xIsIPv4Multicast example_config
       (ulDestinationIPAddress (example_IPv4_frame 0x0900000A 0))"
    "bound_to state_filled_two 1 2"
    "is_IPv4_endpoint example_config state_filled_two 2"
    "ulIPAddress (ipv4_settings (endpoints state_filled_two 2)) =
       ulDestinationIPAddress (example_IPv4_frame 0x0900000A 0)"
    by (simp_all add: is_IPv4_frame_def example_config_def example_IPv4_frame_def
        xIPBroadcast_of_def FreeRTOS_ntohl_def FreeRTOS_htonl_def bound_to_def
        is_IPv4_endpoint_def state_filled_two_def endpoint_filled_2_def
        zero_NetworkEndPoint_def)
  show ?thesis
    using FillEndPoint_example FillEndPoint_example_2 m h by simp
qed

lemma first_where_is_iff:
  "e \<in> set xs \<Longrightarrow> P e \<Longrightarrow>
   (first_where P xs = e) = (\<forall>q \<in> set (takeWhile (\<lambda>q. q \<noteq> e) xs). \<not> P q)"
  by (induction xs) auto

text \<open>
  Claim C8, amended. On a well-formed end-point list, let the destination of an IPv4
  frame be neither a broadcast (its low-order byte is not all-ones) nor multicast, and
  equal to the current address of an IPv4 end-point \<open>e\<close> bound to the receiving
  interface. Then \<open>FreeRTOS_MatchingEndpoint\<close> returns the first-registered IPv4
  end-point of that interface with this current address, whatever other end-points the
  interface has. The result is \<open>e\<close> itself exactly when no IPv4 end-point of the
  interface registered before \<open>e\<close> has the same current address.
\<close>

theorem MatchingEndpoint_exact_unicast:
  assumes l: "endpoint_list (endpoints s) (pxNetworkEndPoints s) xs"
    and f: "is_IPv4_frame cfg pxPacket"
    and nb: "\<not> xIPBroadcast_of cfg (ulDestinationIPAddress pxPacket)"
    and nm: "\<not> xIsIPv4Multicast cfg (ulDestinationIPAddress pxPacket)"
    and e: "e \<in> set xs" "bound_to s pxIf e" "is_IPv4_endpoint cfg s e"
      "ulIPAddress (ipv4_settings (endpoints s e)) = ulDestinationIPAddress pxPacket"
  shows "\<exists>r. FreeRTOS_MatchingEndpoint cfg s pxIf pxPacket = Some r \<and>
           r \<in> set xs \<and> bound_to s pxIf r \<and> is_IPv4_endpoint cfg s r \<and>
           ulIPAddress (ipv4_settings (endpoints s r)) = ulDestinationIPAddress pxPacket \<and>
           r = first_where (\<lambda>q. bound_to s pxIf q \<and> is_IPv4_endpoint cfg s q \<and>
                 ulIPAddress (ipv4_settings (endpoints s q)) =
                   ulDestinationIPAddress pxPacket) xs \<and>
           ((r = e) =
            (\<forall>q \<in> set (takeWhile (\<lambda>q. q \<noteq> e) xs).
                \<not> (bound_to s pxIf q \<and> is_IPv4_endpoint cfg s q \<and>
                   ulIPAddress (ipv4_settings (endpoints s q)) =
                     ulDestinationIPAddress pxPacket)))"
proof -
  let ?dst = "ulDestinationIPAddress pxPacket"
  let ?P = "\<lambda>q. bound_to s pxIf q \<and> is_IPv4_endpoint cfg s q \<and>
                 ulIPAddress (ipv4_settings (endpoints s q)) = ?dst"
  have n0: "NULL \<notin> set xs" by (rule endpoint_list_no_NULL [OF l])
  have acc: "(bound_to s pxIf q \<and>
       accepts cfg s False (ulMatchAddress_of (ulSourceIPAddress pxPacket) ?dst) ?dst q) = ?P q"
    for q
    using nm by (simp add: accepts_def xDone_of_def)
  have res: "FreeRTOS_MatchingEndpoint cfg s pxIf pxPacket = Some (first_where ?P xs)"
    using MatchingEndpoint_IPv4_list [OF l refl refl refl, where cfg = cfg
        and pxPacket = pxPacket and pxIf = pxIf] nb
    by (simp add: FreeRTOS_MatchingEndpoint_IPv4_frame [OF f] acc)
  have "first_where ?P xs \<noteq> NULL"
    using first_where_NULL_iff [OF n0, of ?P] e by blast
  then have found: "first_where ?P xs \<in> set xs \<and> ?P (first_where ?P xs)"
    by (rule first_where_found)
  have "?P e" using e by simp
  then have same: "(first_where ?P xs = e) =
      (\<forall>q \<in> set (takeWhile (\<lambda>q. q \<noteq> e) xs). \<not> ?P q)"
    by (rule first_where_is_iff [OF e(1)])
  show ?thesis
    by (rule exI [of _ "first_where ?P xs"]) (use res found same in blast)
qed

text \<open>A frame from 10.0.0.9 to 192.168.1.5 goes to the second end-point.\<close>

theorem MatchingEndpoint_exact_unicast_witness:
  "endpoint_list (endpoints state_two) (pxNetworkEndPoints state_two) [1, 2] \<and>
   is_IPv4_frame example_config (example_IPv4_frame 0x0900000A 0x0501A8C0) \<and>
   \<not> xIPBroadcast_of example_config
       (ulDestinationIPAddress (example_IPv4_frame 0x0900000A 0x0501A8C0)) \<and>
   \<not> xIsIPv4Multicast example_config
       (ulDestinationIPAddress (example_IPv4_frame 0x0900000A 0x0501A8C0)) \<and>
   ulIPAddress (ipv4_settings (endpoints state_two 2)) =
     ulDestinationIPAddress (example_IPv4_frame 0x0900000A 0x0501A8C0) \<and>
   FreeRTOS_MatchingEndpoint example_config state_two 1
     (example_IPv4_frame 0x0900000A 0x0501A8C0) = Some 2"
proof -
  let ?p = "example_IPv4_frame 0x0900000A 0x0501A8C0"
  have nb: "\<not> xIPBroadcast_of example_config (ulDestinationIPAddress ?p)"
    by (simp add: example_IPv4_frame_def xIPBroadcast_of_def FreeRTOS_ntohl_def
        FreeRTOS_htonl_def example_config_def)
  have nm: "\<not> xIsIPv4Multicast example_config (ulDestinationIPAddress ?p)"
    by (simp add: example_IPv4_frame_def example_config_def)
  have e: "(2::nat) \<in> set [1, 2]" "bound_to state_two 1 2"
    "is_IPv4_endpoint example_config state_two 2"
    "ulIPAddress (ipv4_settings (endpoints state_two 2)) = ulDestinationIPAddress ?p"
    by (simp_all add: bound_to_def is_IPv4_endpoint_def state_two_def example_endpoint_def
        example_IPv4_frame_def zero_NetworkEndPoint_def)
  have before: "\<forall>q \<in> set (takeWhile (\<lambda>q. q \<noteq> 2) [1, 2::nat]).
      \<not> (bound_to state_two 1 q \<and> is_IPv4_endpoint example_config state_two q \<and>
         ulIPAddress (ipv4_settings (endpoints state_two q)) = ulDestinationIPAddress ?p)"
    by (simp add: state_two_def example_endpoint_def example_IPv4_frame_def)
  from MatchingEndpoint_exact_unicast
    [OF state_two_list example_IPv4_frame_is_IPv4 nb nm e] before
  have r: "FreeRTOS_MatchingEndpoint example_config state_two 1 ?p = Some 2"
    by (elim exE conjE) simp
  show ?thesis
    using state_two_list example_IPv4_frame_is_IPv4 [of "0x0900000A" "0x0501A8C0"] nb nm e(4) r
    by blast
qed

subsection \<open>The compatibility build\<close>

text \<open>
  Claim C10 states that the three lookups read through the list head unconditionally,
  so that they are safe only once an end-point is registered. In
  \<open>FreeRTOS_FindEndPointOnIP_IPv4\<close> the read is guarded by \<open>ulIPAddress == 0U ||\<close>:
  with the address 0 the function returns \<open>NULL\<close> on the empty registry and reads
  nothing.
\<close>

theorem single_lookups_NULL_head_counterexample:
  "pxNetworkEndPoints empty_state = NULL \<and>
   FreeRTOS_FindEndPointOnIP_IPv4_single empty_state 0 0 = Inr NULL"
  by (simp add: empty_state_def FreeRTOS_FindEndPointOnIP_IPv4_single_def)

text \<open>
  Claim C10, amended. In the compatibility build, on a registry without end-points
  \<open>FreeRTOS_FindEndPointOnMAC\<close> and \<open>FreeRTOS_InterfaceEndPointOnNetMask\<close> always reach
  the null dereference, \<open>FreeRTOS_FindEndPointOnIP_IPv4\<close> reaches it exactly for a
  non-zero address, and \<open>FreeRTOS_FindGateWay\<close> returns "no match"; once an end-point is
  registered none of the four reaches it.
\<close>

theorem single_lookups_NULL_head:
  "(pxNetworkEndPoints s = NULL \<longrightarrow>
      FreeRTOS_FindEndPointOnMAC_single s pxMACAddress pxIf = Inl NullDereference \<and>
      FreeRTOS_InterfaceEndPointOnNetMask_single s pxIf ulIP ulWhere = Inl NullDereference \<and>
      FreeRTOS_FindEndPointOnIP_IPv4_single s ulIP ulWhere =
        (if ulIP = 0 then Inr NULL else Inl NullDereference) \<and>
      FreeRTOS_FindGateWay_single s xIPType = Inr NULL) \<and>
   (pxNetworkEndPoints s \<noteq> NULL \<longrightarrow>
      FreeRTOS_FindEndPointOnMAC_single s pxMACAddress pxIf \<noteq> Inl NullDereference \<and>
      FreeRTOS_InterfaceEndPointOnNetMask_single s pxIf ulIP ulWhere \<noteq> Inl NullDereference \<and>
      FreeRTOS_FindEndPointOnIP_IPv4_single s ulIP ulWhere \<noteq> Inl NullDereference \<and>
      FreeRTOS_FindGateWay_single s xIPType \<noteq> Inl NullDereference)"
  by (simp add: FreeRTOS_FindEndPointOnMAC_single_def
      FreeRTOS_InterfaceEndPointOnNetMask_single_def
      FreeRTOS_FindEndPointOnIP_IPv4_single_def FreeRTOS_FindGateWay_single_def)

text \<open>The empty registry, and the registry with the end-point 10.0.0.5/24.\<close>

theorem single_lookups_NULL_head_witness:
  "pxNetworkEndPoints empty_state = NULL \<and>
   FreeRTOS_FindEndPointOnMAC_single empty_state [0, 1, 2, 3, 4, 5] 1 = Inl NullDereference \<and>
   FreeRTOS_InterfaceEndPointOnNetMask_single empty_state 1 0x0900000A 0 = Inl NullDereference \<and>
   FreeRTOS_FindEndPointOnIP_IPv4_single empty_state 0x0500000A 0 = Inl NullDereference \<and>
   FreeRTOS_FindGateWay_single empty_state ipTYPE_IPv4 = Inr NULL \<and>
   pxNetworkEndPoints state_one \<noteq> NULL \<and>
   FreeRTOS_FindEndPointOnMAC_single state_one [0, 1, 2, 3, 4, 5] 1 \<noteq> Inl NullDereference \<and>
   FreeRTOS_InterfaceEndPointOnNetMask_single state_one 1 0x0900000A 0 \<noteq> Inl NullDereference \<and>
   FreeRTOS_FindEndPointOnIP_IPv4_single state_one 0x0500000A 0 \<noteq> Inl NullDereference"
proof -
  have e: "pxNetworkEndPoints empty_state = NULL"
    by (simp add: empty_state_def)
  have o: "pxNetworkEndPoints state_one \<noteq> NULL"
    by (simp add: state_one_def)
  show ?thesis
    using e o
      single_lookups_NULL_head [of empty_state "[0, 1, 2, 3, 4, 5]" 1 "0x0900000A" 0 ipTYPE_IPv4]
      single_lookups_NULL_head [of empty_state "[0, 1, 2, 3, 4, 5]" 1 "0x0500000A" 0 ipTYPE_IPv4]
      single_lookups_NULL_head [of state_one "[0, 1, 2, 3, 4, 5]" 1 "0x0900000A" 0 ipTYPE_IPv4]
      single_lookups_NULL_head [of state_one "[0, 1, 2, 3, 4, 5]" 1 "0x0500000A" 0 ipTYPE_IPv4]
    by simp
qed

subsection \<open>The compatibility build against the general build\<close>

lemma xor_eq_0_iff_word: "((x::uint32_t) XOR y = 0) = (x = y)"
  by (metis bit.xor_self xor.left_neutral xor.assoc)

lemma xor_and_eq_0_iff:
  "(((a::uint32_t) XOR b) AND m = 0) = ((a AND m) = (b AND m))"
  by (simp only: bit.conj_xor_distrib2 xor_eq_0_iff_word)

lemma single_configuration_list:
  "single_configuration s i e \<Longrightarrow> endpoint_list (endpoints s) (pxNetworkEndPoints s) [e]"
  by (simp add: single_configuration_def)

lemma endpoint_scan_NULL: "endpoint_scan test eps NULL = Some NULL"
  by (subst endpoint_scan.simps) simp

lemma endpoint_scan_single:
  assumes "single_configuration s i e"
  shows "endpoint_scan test (endpoints s) e =
           Some (if test (endpoints s e) then e else NULL)"
  using endpoint_scan_list [OF single_configuration_list [OF assms], of test] assms
  by (simp add: single_configuration_def)

text \<open>
  Claim C1 states that on one interface with one end-point every operation of the
  compatibility build returns what the general build returns, for every input. On
  interface 1 with the end-point 10.0.0.5/24 (gateway 10.0.0.1): a frame from 10.0.0.9
  to 8.8.8.8 matches no end-point in the general build and the end-point in the
  compatibility build; so do \<open>FreeRTOS_FirstEndPoint\<close> for another interface, and
  \<open>FreeRTOS_FindGateWay\<close> for the IPv6 type.
\<close>

theorem single_equivalence_counterexample:
  "single_configuration state_one 1 1 \<and>
   FreeRTOS_MatchingEndpoint example_config state_one 1
     (example_IPv4_frame 0x0900000A 0x08080808) = Some NULL \<and>
   FreeRTOS_MatchingEndpoint_single state_one 1
     (example_IPv4_frame 0x0900000A 0x08080808) = Inr 1 \<and>
   FreeRTOS_FirstEndPoint state_one 2 = Some NULL \<and>
   FreeRTOS_FirstEndPoint_single state_one 2 = Inr 1 \<and>
   FreeRTOS_FindGateWay example_config state_one ipTYPE_IPv6 = Some NULL \<and>
   FreeRTOS_FindGateWay_single state_one ipTYPE_IPv6 = Inr 1"
  by (simp add: single_configuration_def FreeRTOS_MatchingEndpoint_def
      MatchingEndpoint_IPv4_def example_config_def
      state_one_def example_IPv4_frame_def FreeRTOS_FirstEndPoint_def endpoint_scan.simps
      MatchingEndpoint_IPv4_loop.simps example_endpoint_def xIPBroadcast_of_def
      ulMatchAddress_of_def xDone_of_def FreeRTOS_NextEndPoint_def FreeRTOS_ntohl_def
      FreeRTOS_htonl_def zero_NetworkEndPoint_def FreeRTOS_MatchingEndpoint_single_def
      FreeRTOS_FirstEndPoint_single_def FreeRTOS_FindGateWay_def
      FreeRTOS_FindGateWay_single_def ipTYPE_IPv6_def ipTYPE_IPv4_def)

text \<open>
  On one interface \<open>i\<close> with one IPv4 end-point \<open>e\<close> the general matcher returns \<open>e\<close>
  for an ARP frame whose target address is 0 or the address of \<open>e\<close>, and for an IPv4
  frame received on \<open>NULL\<close> or \<open>i\<close> whose destination is the address of \<open>e\<close>, has an
  all-ones low-order byte, or is multicast. For every other frame it returns \<open>NULL\<close>.
\<close>

lemma MatchingEndpoint_single_result:
  assumes c: "single_configuration s i e"
  shows "FreeRTOS_MatchingEndpoint cfg s pxIf pxPacket =
     Some (if (if ipconfigUSE_IPv6 cfg \<and> usFrameType pxPacket = ipIPv6_FRAME_TYPE cfg
               then False
               else if usFrameType pxPacket = ipARP_FRAME_TYPE cfg
               then ulTargetProtocolAddress pxPacket = 0 \<or>
                    ulIPAddress (ipv4_settings (endpoints s e)) =
                      ulTargetProtocolAddress pxPacket
               else if usFrameType pxPacket = ipIPv4_FRAME_TYPE cfg
               then (pxIf = NULL \<or> pxIf = i) \<and>
                    (ulIPAddress (ipv4_settings (endpoints s e)) =
                       ulDestinationIPAddress pxPacket \<or>
                     xIPBroadcast_of cfg (ulDestinationIPAddress pxPacket) \<or>
                     xIsIPv4Multicast cfg (ulDestinationIPAddress pxPacket))
               else False)
           then e else NULL)"
proof -
  have v4: "\<not> bIPv6 (endpoints s e)" and hd: "pxNetworkEndPoints s = e"
    and own: "pxNetworkInterface (endpoints s e) = i"
    using c by (simp_all add: single_configuration_def)
  have six: "MatchingEndpoint_IPv6 cfg s pxIf pxPacket = Some NULL"
    using v4 by (simp add: hd MatchingEndpoint_IPv6_def endpoint_scan_single [OF c]
        FreeRTOS_FirstEndPoint_IPv6_def)
  have arp: "FreeRTOS_FindEndPointOnIP_IPv4 cfg s a w =
      Some (if a = 0 \<or> ulIPAddress (ipv4_settings (endpoints s e)) = a then e else NULL)"
    for a w
    using v4 by (simp add: hd FreeRTOS_FindEndPointOnIP_IPv4_def endpoint_scan_single [OF c])
  let ?dst = "ulDestinationIPAddress pxPacket"
  let ?b = "xIPBroadcast_of cfg ?dst"
  let ?m = "ulMatchAddress_of (ulSourceIPAddress pxPacket) ?dst"
  have bd: "bound_to s pxIf e = (pxIf = NULL \<or> pxIf = i)"
    using own by (auto simp add: bound_to_def)
  have acc: "accepts cfg s ?b ?m ?dst e \<or> ?b \<longleftrightarrow>
      ulIPAddress (ipv4_settings (endpoints s e)) = ?dst \<or> ?b \<or> xIsIPv4Multicast cfg ?dst"
    using v4 by (auto simp add: accepts_def is_IPv4_endpoint_def xDone_of_def)
  have four: "MatchingEndpoint_IPv4 cfg s pxIf pxPacket =
      Some (if (pxIf = NULL \<or> pxIf = i) \<and>
               (ulIPAddress (ipv4_settings (endpoints s e)) = ?dst \<or> ?b \<or>
                xIsIPv4Multicast cfg ?dst)
            then e else NULL)"
    using MatchingEndpoint_IPv4_list [OF single_configuration_list [OF c] refl refl refl,
        where cfg = cfg and pxPacket = pxPacket and pxIf = pxIf] acc
    by (auto simp add: bd)
  show ?thesis
    unfolding FreeRTOS_MatchingEndpoint_def by (auto simp add: six arp four)
qed

text \<open>
  Claim C1, amended. On one interface \<open>i\<close> with one IPv4 end-point \<open>e\<close> the two builds
  return the same for \<open>FreeRTOS_FindEndPointOnIP_IPv4\<close> and
  \<open>FreeRTOS_FindEndPointOnNetMask\<close> with any address. For the other operations they
  return the same exactly on these inputs:
  \<^item> \<open>FreeRTOS_InterfaceEndPointOnNetMask\<close>: the interface argument is \<open>NULL\<close> or \<open>i\<close>, or
    the address is not on the subnet of \<open>e\<close>;
  \<^item> \<open>FreeRTOS_FindEndPointOnMAC\<close>: the interface argument is \<open>NULL\<close> or \<open>i\<close>, or the MAC
    address is not that of \<open>e\<close>;
  \<^item> \<open>FreeRTOS_FirstEndPoint\<close>: the interface argument is \<open>NULL\<close> or \<open>i\<close>;
  \<^item> \<open>FreeRTOS_FindGateWay\<close>: the general build has no IPv6, or the type is IPv4, or
    \<open>e\<close> has no gateway;
  \<^item> \<open>FreeRTOS_MatchingEndpoint\<close>: the frame is an ARP frame whose target address is 0
    or the address of \<open>e\<close>, or an IPv4 frame received on \<open>NULL\<close> or \<open>i\<close> whose
    destination is the address of \<open>e\<close>, has an all-ones low-order byte, or is multicast.
    On every other frame the compatibility build returns \<open>e\<close> and the general build
    "no match".
  \<open>FreeRTOS_NextEndPoint\<close> from \<open>e\<close> or \<open>NULL\<close> and \<open>FreeRTOS_NextNetworkInterface\<close>
  from \<open>i\<close> or \<open>NULL\<close> return \<open>NULL\<close> in both builds.
\<close>

theorem single_equivalence:
  assumes c: "single_configuration s i e"
  shows "agree (FreeRTOS_FindEndPointOnIP_IPv4 cfg s ulIP ulWhere)
           (FreeRTOS_FindEndPointOnIP_IPv4_single s ulIP ulWhere) \<and>
         agree (FreeRTOS_FindEndPointOnNetMask cfg s ulIP ulWhere)
           (FreeRTOS_FindEndPointOnNetMask_single s ulIP ulWhere) \<and>
         (agree (FreeRTOS_InterfaceEndPointOnNetMask cfg s pxIf ulIP ulWhere)
            (FreeRTOS_InterfaceEndPointOnNetMask_single s pxIf ulIP ulWhere) =
          (pxIf = NULL \<or> pxIf = i \<or> \<not> on_netmask s ulIP e)) \<and>
         (agree (FreeRTOS_FindEndPointOnMAC s pxMACAddress pxIf)
            (FreeRTOS_FindEndPointOnMAC_single s pxMACAddress pxIf) =
          (pxIf = NULL \<or> pxIf = i \<or>
           \<not> memcmp_eq (xMACAddress (endpoints s e)) pxMACAddress
               ipMAC_ADDRESS_LENGTH_BYTES)) \<and>
         (agree (FreeRTOS_FirstEndPoint s pxIf) (FreeRTOS_FirstEndPoint_single s pxIf) =
          (pxIf = NULL \<or> pxIf = i)) \<and>
         (agree (FreeRTOS_FindGateWay cfg s xIPType) (FreeRTOS_FindGateWay_single s xIPType) =
          (\<not> ipconfigUSE_IPv6 cfg \<or> xIPType = ipTYPE_IPv4 \<or>
           ulGatewayAddress (ipv4_settings (endpoints s e)) = 0)) \<and>
         (pxEP = NULL \<or> pxEP = e \<longrightarrow>
            agree (FreeRTOS_NextEndPoint s pxIf pxEP) (FreeRTOS_NextEndPoint_single s pxIf pxEP)) \<and>
         (pxIf = NULL \<or> pxIf = i \<longrightarrow>
            Inr (FreeRTOS_NextNetworkInterface s pxIf) = FreeRTOS_NextNetworkInterface_single s pxIf) \<and>
         FreeRTOS_MatchingEndpoint_single s pxIf pxPacket = Inr e \<and>
         (agree (FreeRTOS_MatchingEndpoint cfg s pxIf pxPacket)
            (FreeRTOS_MatchingEndpoint_single s pxIf pxPacket) =
          (if ipconfigUSE_IPv6 cfg \<and> usFrameType pxPacket = ipIPv6_FRAME_TYPE cfg
           then False
           else if usFrameType pxPacket = ipARP_FRAME_TYPE cfg
           then ulTargetProtocolAddress pxPacket = 0 \<or>
                ulIPAddress (ipv4_settings (endpoints s e)) =
                  ulTargetProtocolAddress pxPacket
           else if usFrameType pxPacket = ipIPv4_FRAME_TYPE cfg
           then (pxIf = NULL \<or> pxIf = i) \<and>
                (ulIPAddress (ipv4_settings (endpoints s e)) =
                   ulDestinationIPAddress pxPacket \<or>
                 xIPBroadcast_of cfg (ulDestinationIPAddress pxPacket) \<or>
                 xIsIPv4Multicast cfg (ulDestinationIPAddress pxPacket))
           else False)) \<and>
         (\<not> agree (FreeRTOS_MatchingEndpoint cfg s pxIf pxPacket)
              (FreeRTOS_MatchingEndpoint_single s pxIf pxPacket) \<longrightarrow>
          FreeRTOS_MatchingEndpoint cfg s pxIf pxPacket = Some NULL)"
proof -
  have f: "i \<noteq> NULL" "e \<noteq> NULL" "pxNetworkInterfaces s = i"
    "pxNextInterface (interfaces s i) = NULL" "pxNetworkEndPoints s = e"
    "pxNext (endpoints s e) = NULL" "pxNetworkInterface (endpoints s e) = i"
    "\<not> bIPv6 (endpoints s e)"
    using c by (simp_all add: single_configuration_def)
  have ip: "agree (FreeRTOS_FindEndPointOnIP_IPv4 cfg s ulIP ulWhere)
      (FreeRTOS_FindEndPointOnIP_IPv4_single s ulIP ulWhere)"
    using f by (simp add: agree_def FreeRTOS_FindEndPointOnIP_IPv4_def
        FreeRTOS_FindEndPointOnIP_IPv4_single_def endpoint_scan_single [OF c])
  have nm: "agree (FreeRTOS_InterfaceEndPointOnNetMask cfg s pxIf ulIP ulWhere)
        (FreeRTOS_InterfaceEndPointOnNetMask_single s pxIf ulIP ulWhere) =
      (pxIf = NULL \<or> pxIf = i \<or> \<not> on_netmask s ulIP e)" for pxIf
    using f by (auto simp add: agree_def FreeRTOS_InterfaceEndPointOnNetMask_def
        FreeRTOS_InterfaceEndPointOnNetMask_single_def endpoint_scan_single [OF c]
        xor_and_eq_0_iff on_netmask_def)
  have nm0: "agree (FreeRTOS_FindEndPointOnNetMask cfg s ulIP ulWhere)
      (FreeRTOS_FindEndPointOnNetMask_single s ulIP ulWhere)"
    unfolding FreeRTOS_FindEndPointOnNetMask_def FreeRTOS_FindEndPointOnNetMask_single_def
    by (simp add: nm)
  have mac: "agree (FreeRTOS_FindEndPointOnMAC s pxMACAddress pxIf)
        (FreeRTOS_FindEndPointOnMAC_single s pxMACAddress pxIf) =
      (pxIf = NULL \<or> pxIf = i \<or>
       \<not> memcmp_eq (xMACAddress (endpoints s e)) pxMACAddress ipMAC_ADDRESS_LENGTH_BYTES)"
    using f by (auto simp add: agree_def FreeRTOS_FindEndPointOnMAC_def
        FreeRTOS_FindEndPointOnMAC_single_def endpoint_scan_single [OF c])
  have first: "agree (FreeRTOS_FirstEndPoint s pxIf) (FreeRTOS_FirstEndPoint_single s pxIf) =
      (pxIf = NULL \<or> pxIf = i)"
    using f by (auto simp add: agree_def FreeRTOS_FirstEndPoint_def
        FreeRTOS_FirstEndPoint_single_def endpoint_scan_single [OF c])
  have gw: "agree (FreeRTOS_FindGateWay cfg s xIPType) (FreeRTOS_FindGateWay_single s xIPType) =
      (\<not> ipconfigUSE_IPv6 cfg \<or> xIPType = ipTYPE_IPv4 \<or>
       ulGatewayAddress (ipv4_settings (endpoints s e)) = 0)"
    using f by (auto simp add: agree_def FreeRTOS_FindGateWay_def
        FreeRTOS_FindGateWay_single_def endpoint_scan_single [OF c]
        ipTYPE_IPv4_def ipTYPE_IPv6_def)
  have nxt: "pxEP = NULL \<or> pxEP = e \<Longrightarrow>
      agree (FreeRTOS_NextEndPoint s pxIf pxEP) (FreeRTOS_NextEndPoint_single s pxIf pxEP)"
    using f by (auto simp add: agree_def FreeRTOS_NextEndPoint_def
        FreeRTOS_NextEndPoint_single_def endpoint_scan_NULL)
  have nif: "pxIf = NULL \<or> pxIf = i \<Longrightarrow>
      Inr (FreeRTOS_NextNetworkInterface s pxIf) = FreeRTOS_NextNetworkInterface_single s pxIf"
    using f by (auto simp add: FreeRTOS_NextNetworkInterface_def
        FreeRTOS_NextNetworkInterface_single_def)
  have ms: "FreeRTOS_MatchingEndpoint_single s pxIf pxPacket = Inr e"
    using f by (simp add: FreeRTOS_MatchingEndpoint_single_def)
  note mg = MatchingEndpoint_single_result [OF c, of cfg pxIf pxPacket]
  have me: "agree (FreeRTOS_MatchingEndpoint cfg s pxIf pxPacket)
        (FreeRTOS_MatchingEndpoint_single s pxIf pxPacket) =
      (if ipconfigUSE_IPv6 cfg \<and> usFrameType pxPacket = ipIPv6_FRAME_TYPE cfg
       then False
       else if usFrameType pxPacket = ipARP_FRAME_TYPE cfg
       then ulTargetProtocolAddress pxPacket = 0 \<or>
            ulIPAddress (ipv4_settings (endpoints s e)) = ulTargetProtocolAddress pxPacket
       else if usFrameType pxPacket = ipIPv4_FRAME_TYPE cfg
       then (pxIf = NULL \<or> pxIf = i) \<and>
            (ulIPAddress (ipv4_settings (endpoints s e)) = ulDestinationIPAddress pxPacket \<or>
             xIPBroadcast_of cfg (ulDestinationIPAddress pxPacket) \<or>
             xIsIPv4Multicast cfg (ulDestinationIPAddress pxPacket))
       else False)"
    using f(2) by (simp only: mg ms agree_def option.case sum.case split: if_splits) auto
  have mn: "\<not> agree (FreeRTOS_MatchingEndpoint cfg s pxIf pxPacket)
        (FreeRTOS_MatchingEndpoint_single s pxIf pxPacket) \<longrightarrow>
      FreeRTOS_MatchingEndpoint cfg s pxIf pxPacket = Some NULL"
    using f(2) by (simp only: mg ms agree_def option.case sum.case split: if_splits) auto
  show ?thesis
    using ip nm0 nm [of pxIf] mac first gw nxt nif ms me mn by blast
qed

text \<open>
  Interface 1 with the end-point 10.0.0.5/24: the builds agree on a frame to 10.0.0.5
  and differ on a frame to 8.8.8.8.
\<close>

theorem single_equivalence_witness:
  "single_configuration state_one 1 1 \<and>
   agree (FreeRTOS_FindEndPointOnIP_IPv4 example_config state_one 0x0500000A 0)
     (FreeRTOS_FindEndPointOnIP_IPv4_single state_one 0x0500000A 0) \<and>
   agree (FreeRTOS_InterfaceEndPointOnNetMask example_config state_one 1 0x0500000A 0)
     (FreeRTOS_InterfaceEndPointOnNetMask_single state_one 1 0x0500000A 0) \<and>
   agree (FreeRTOS_FindEndPointOnMAC state_one [0, 1, 2, 3, 4, 5] 1)
     (FreeRTOS_FindEndPointOnMAC_single state_one [0, 1, 2, 3, 4, 5] 1) \<and>
   agree (FreeRTOS_FirstEndPoint state_one 1) (FreeRTOS_FirstEndPoint_single state_one 1) \<and>
   agree (FreeRTOS_FindGateWay example_config state_one ipTYPE_IPv4)
     (FreeRTOS_FindGateWay_single state_one ipTYPE_IPv4) \<and>
   agree (FreeRTOS_NextEndPoint state_one 1 1) (FreeRTOS_NextEndPoint_single state_one 1 1) \<and>
   Inr (FreeRTOS_NextNetworkInterface state_one 1) =
     FreeRTOS_NextNetworkInterface_single state_one 1 \<and>
   agree (FreeRTOS_MatchingEndpoint example_config state_one 1
            (example_IPv4_frame 0x0900000A 0x0500000A))
     (FreeRTOS_MatchingEndpoint_single state_one 1
            (example_IPv4_frame 0x0900000A 0x0500000A)) \<and>
   \<not> agree (FreeRTOS_MatchingEndpoint example_config state_one 1
              (example_IPv4_frame 0x0900000A 0x08080808))
       (FreeRTOS_MatchingEndpoint_single state_one 1
              (example_IPv4_frame 0x0900000A 0x08080808))"
proof -
  have c: "single_configuration state_one 1 1"
    by (simp add: single_configuration_def state_one_def example_endpoint_def)
  have ev: "ulIPAddress (ipv4_settings (endpoints state_one (Suc 0))) = 0x0500000A"
    "usFrameType (example_IPv4_frame a b) = ipIPv4_FRAME_TYPE example_config"
    "ipIPv4_FRAME_TYPE example_config \<noteq> ipARP_FRAME_TYPE example_config"
    "ipIPv4_FRAME_TYPE example_config \<noteq> ipIPv6_FRAME_TYPE example_config"
    "ulDestinationIPAddress (example_IPv4_frame a b) = b"
    "\<not> xIPBroadcast_of example_config 0x08080808"
    "\<not> xIsIPv4Multicast example_config 0x08080808" for a b
    by (simp_all add: state_one_def example_endpoint_def example_IPv4_frame_def
        example_config_def xIPBroadcast_of_def FreeRTOS_ntohl_def FreeRTOS_htonl_def)
  show ?thesis
    using c
      single_equivalence [OF c, where cfg = example_config and ulIP = "0x0500000A"
        and ulWhere = 0 and pxIf = 1 and pxMACAddress = "[0, 1, 2, 3, 4, 5]"
        and xIPType = ipTYPE_IPv4 and pxEP = 1
        and pxPacket = "example_IPv4_frame 0x0900000A 0x0500000A"]
      single_equivalence [OF c, where cfg = example_config and ulIP = "0x0500000A"
        and ulWhere = 0 and pxIf = 1 and pxMACAddress = "[0, 1, 2, 3, 4, 5]"
        and xIPType = ipTYPE_IPv4 and pxEP = 1
        and pxPacket = "example_IPv4_frame 0x0900000A 0x08080808"]
    by (auto simp add: ev)
qed

subsection \<open>Registering an interface again\<close>

text \<open>
  Claim C2: the interface list is in call order, and registering an interface that is
  already in the list changes neither the list nor the record of the interface. The
  source means to do so (it looks for the interface in the list and then does nothing),
  but it has cleared \<open>pxNext\<close> and \<open>pxEndPoint\<close> of the interface before it looks.
  Registering 1, 2 gives the list 1, 2; registering 1 again cuts the list behind 1, so
  interface 2 is lost. And registering again an interface that has an end-point clears
  its \<open>pxEndPoint\<close>.
\<close>

theorem AddNetworkInterface_again_loses_interfaces:
  "(case AddNetworkInterface_calls empty_state [1, 2] of
      Some (Inr s) \<Rightarrow> interface_list (interfaces s) (pxNetworkInterfaces s) [1, 2]
    | _ \<Rightarrow> False) \<and>
   (case AddNetworkInterface_calls empty_state [1, 2, 1] of
      Some (Inr s) \<Rightarrow> interface_list (interfaces s) (pxNetworkInterfaces s) [1] \<and>
                      \<not> interface_list (interfaces s) (pxNetworkInterfaces s) [1, 2]
    | _ \<Rightarrow> False) \<and>
   pxEndPoint (interfaces state_filled 1) = 1 \<and>
   (case FreeRTOS_AddNetworkInterface state_filled 1 of
      Some (Inr (r, s)) \<Rightarrow> pxEndPoint (interfaces s 1) = NULL
    | _ \<Rightarrow> False)"
  by (simp add: FreeRTOS_AddNetworkInterface_def AddNetworkInterface_loop.simps
      empty_state_def state_filled_def Let_def)

end
